theory Spec2Isabelle
  imports Main "HOL-Library.AList"
begin

section \<open>Python string primitives\<close>

text \<open>
  Strings are byte strings: an ASCII character is one \<open>char\<close>, and the few non-ASCII
  characters of the source's literals are written as their UTF-8 bytes. The string
  methods below are Python's on ASCII text, which is the domain of this model; bytes
  outside ASCII are left as they are. On text outside ASCII Python does more:
  \<^verbatim>\<open>str.strip\<close> and \<^verbatim>\<open>str.split\<close> also treat the Unicode spaces (such as U+00A0) as
  whitespace, \<^verbatim>\<open>str.lower\<close> also maps the cased letters beyond ASCII (U+212A to \<open>k\<close>,
  U+0130 to \<open>i\<close> and U+0307), and \<^verbatim>\<open>\d\<close> also matches the decimal digits of other scripts.
  CPython moreover refuses \<^verbatim>\<open>int\<close> of more than 4300 digits; \<open>int_of_digits\<close> has no such
  limit.
\<close>

definition ascii_uppercase :: string where
  "ascii_uppercase = ''ABCDEFGHIJKLMNOPQRSTUVWXYZ''"

definition ascii_lowercase :: string where
  "ascii_lowercase = ''abcdefghijklmnopqrstuvwxyz''"

definition digits :: string where
  "digits = ''0123456789''"

definition whitespace :: string where
  "whitespace = [CHR 0x09, CHR 0x0A, CHR 0x0B, CHR 0x0C, CHR 0x0D,
                 CHR 0x1C, CHR 0x1D, CHR 0x1E, CHR 0x1F, CHR 0x20]"

definition lower_char :: "char \<Rightarrow> char" where
  "lower_char c = (case map_of (zip ascii_uppercase ascii_lowercase) c of Some d \<Rightarrow> d | None \<Rightarrow> c)"

definition upper_char :: "char \<Rightarrow> char" where
  "upper_char c = (case map_of (zip ascii_lowercase ascii_uppercase) c of Some d \<Rightarrow> d | None \<Rightarrow> c)"

definition isalpha :: "char \<Rightarrow> bool" where
  "isalpha c = (c \<in> set (ascii_uppercase @ ascii_lowercase))"

definition isdigit :: "char \<Rightarrow> bool" where
  "isdigit c = (c \<in> set digits)"

definition isspace :: "char \<Rightarrow> bool" where
  "isspace c = (c \<in> set whitespace)"

text \<open>\<^verbatim>\<open>s.lower()\<close>\<close>

definition lower :: "string \<Rightarrow> string" where
  "lower s = map lower_char s"

text \<open>\<^verbatim>\<open>s.title()\<close>: a letter is upper-cased after a non-letter and lower-cased after a letter.\<close>

fun title_from :: "bool \<Rightarrow> string \<Rightarrow> string" where
  "title_from prev [] = []"
| "title_from prev (c # cs) =
     (if isalpha c then (if prev then lower_char c else upper_char c) # title_from True cs
      else c # title_from False cs)"

definition str_title :: "string \<Rightarrow> string" where
  "str_title s = title_from False s"

text \<open>\<^verbatim>\<open>s.strip()\<close>\<close>

definition strip :: "string \<Rightarrow> string" where
  "strip s = rev (dropWhile isspace (rev (dropWhile isspace s)))"

text \<open>\<^verbatim>\<open>s.split()\<close>: the maximal runs of non-whitespace characters.\<close>

fun split_from :: "string \<Rightarrow> string \<Rightarrow> string list" where
  "split_from cur [] = (if cur = [] then [] else [cur])"
| "split_from cur (c # cs) =
     (if isspace c then (if cur = [] then split_from [] cs else cur # split_from [] cs)
      else split_from (cur @ [c]) cs)"

definition split :: "string \<Rightarrow> string list" where
  "split s = split_from [] s"

text \<open>\<^verbatim>\<open>sep.join(xs)\<close>\<close>

fun join :: "string \<Rightarrow> string list \<Rightarrow> string" where
  "join sep [] = []"
| "join sep [x] = x"
| "join sep (x # y # ys) = x @ sep @ join sep (y # ys)"

text \<open>\<^verbatim>\<open>needle in hay\<close> on strings: \<open>str_in needle hay\<close>.\<close>

fun startswith :: "string \<Rightarrow> string \<Rightarrow> bool" where
  "startswith [] hay = True"
| "startswith (n # ns) [] = False"
| "startswith (n # ns) (h # hs) = (n = h \<and> startswith ns hs)"

fun str_in :: "string \<Rightarrow> string \<Rightarrow> bool" where
  "str_in needle [] = (needle = [])"
| "str_in needle (h # hs) = (startswith needle (h # hs) \<or> str_in needle hs)"

text \<open>\<^verbatim>\<open>re.findall(r'\d+', s)\<close>, of which the source reads only the first element.\<close>

definition first_number :: "string \<Rightarrow> string option" where
  "first_number s =
     (let run = takeWhile isdigit (dropWhile (\<lambda>c. \<not> isdigit c) s)
      in if run = [] then None else Some run)"

definition digit_value :: "char \<Rightarrow> int" where
  "digit_value c = (case map_of (zip digits [0, 1, 2, 3, 4, 5, 6, 7, 8, 9]) c of Some d \<Rightarrow> d | None \<Rightarrow> 0)"

text \<open>\<^verbatim>\<open>int(ds)\<close> on a string of decimal digits.\<close>

definition int_of_digits :: "string \<Rightarrow> int" where
  "int_of_digits ds = foldl (\<lambda>acc c. 10 * acc + digit_value c) 0 ds"

fun str_of_nat :: "nat \<Rightarrow> string" where
  "str_of_nat n =
     (if n < 10 then [digits ! n] else str_of_nat (n div 10) @ [digits ! (n mod 10)])"

definition str_of_int :: "int \<Rightarrow> string" where
  "str_of_int i = (if i < 0 then CHR ''-'' # str_of_nat (nat (- i)) else str_of_nat (nat i))"


section \<open>state.py: the shared state\<close>

text \<open>
  The values a scratchpad slot holds: the extractors write strings and, for
  \<open>question_count\<close>, an integer. \<open>truthy\<close> is Python's truth value.
\<close>

datatype pyval = PStr string | PInt int

fun truthy :: "pyval \<Rightarrow> bool" where
  "truthy (PStr s) = (s \<noteq> [])"
| "truthy (PInt i) = (i \<noteq> 0)"

text \<open>\<^verbatim>\<open>str(v)\<close>, as an f-string formats the value.\<close>

fun py_str :: "pyval \<Rightarrow> string" where
  "py_str (PStr s) = s"
| "py_str (PInt i) = str_of_int i"

text \<open>
  A dict is an association list in insertion order; \<open>AList.update\<close> is item assignment
  (an existing key keeps its place, a new key goes last), \<open>map_of\<close> is lookup and
  \<open>[]\<close> is the empty dict.
\<close>

type_synonym scratchpad = "(string \<times> pyval) list"

text \<open>\<^verbatim>\<open>bool(d.get(k))\<close>\<close>

definition slot_truthy :: "scratchpad \<Rightarrow> string \<Rightarrow> bool" where
  "slot_truthy d k = (case map_of d k of None \<Rightarrow> False | Some v \<Rightarrow> truthy v)"

text \<open>\<^verbatim>\<open>d.get(k, default)\<close>\<close>

definition get_or :: "scratchpad \<Rightarrow> string \<Rightarrow> pyval \<Rightarrow> pyval" where
  "get_or d k dflt = (case map_of d k of None \<Rightarrow> dflt | Some v \<Rightarrow> v)"

record message =
  role :: string
  content :: string
  timestamp :: "string option"

record root_agent_state =
  user_id :: string
  user_role :: string
  user_query :: string
  conversation_history :: "message list"
  current_agent :: "string option"
  current_agent_awaiting_parameters :: "string option"
  sub_agent_scratchpad :: scratchpad
  system_response :: string
  error :: "string option"
  current_assignment_id :: "string option"
  current_topic :: "string option"

text \<open>
  The exceptions of a turn: a failure of an external capability (the classifier chain or
  a generation chain), a missing dict key, and a routing target the graph has no node for.
\<close>

datatype exn = CapabilityError string | KeyError string | GraphError string

fun exn_str :: "exn \<Rightarrow> string" where
  "exn_str (CapabilityError m) = m"
| "exn_str (KeyError m) = m"
| "exn_str (GraphError m) = m"

text \<open>
  A function that mutates the state and may raise returns the new state, or the
  exception together with the state it was working on, as mutated up to the raise.
\<close>

type_synonym outcome = "(exn \<times> root_agent_state) + root_agent_state"


section \<open>root\_agent.py: the registry and the router\<close>

record agent_entry =
  name :: string
  description :: string
  keyword_hints :: "string list"
  roles :: "string list"
  parameters :: "string list"

definition AGENTS :: "(string \<times> agent_entry) list" where
  "AGENTS =
    [(''assignment_review_agent'',
      \<lparr>name = ''Assignment Review & Insight Agent'',
       description = ''Handles queries about assignments, grades, feedback, performance insights, and past reports'',
       keyword_hints = [''assignment'', ''grade'', ''feedback'', ''status'', ''due date'', ''results'',
                   ''performance'', ''insights'', ''score'', ''report'', ''reports'', ''past'',
                   ''previous'', ''history'', ''how did I do'', ''my work''],
       roles = [''Consultant''],
       parameters = [''assignment_id'', ''assignment_title'']\<rparr>),
     (''learning_path_agent'',
      \<lparr>name = ''Learning Path Recommendation Agent'',
       description = ''Provides learning recommendations, course suggestions, and study plans'',
       keyword_hints = [''learn'', ''study'', ''recommend'', ''course'', ''path'', ''plan'', ''guide'',
                   ''resources'', ''progress'', ''tutorial'', ''want to learn'', ''teach me'', ''improve''],
       roles = [''Consultant''],
       parameters = [''topic'', ''skill_level'']\<rparr>),
     (''question_generation_agent'',
      \<lparr>name = ''Question Generation Agent'',
       description = ''Generates practice questions, quizzes, and assessments'',
       keyword_hints = [''generate'', ''create'', ''quiz'', ''questions'', ''test'', ''practice'',
                   ''assessment'', ''exam''],
       roles = [''Admin''],
       parameters = [''topic'', ''difficulty'', ''question_count'']\<rparr>),
     (''faq_fallback_agent'',
      \<lparr>name = ''FAQ & Fallback Agent'',
       description = ''Handles general queries, FAQs, greetings, and fallback scenarios'',
       keyword_hints = [''help'', ''how to'', ''what is'', ''faq'', ''hello'', ''hi'', ''thank'', ''general''],
       roles = [''All''],
       parameters = []\<rparr>)]"

text \<open>\<^verbatim>\<open>AgentInfo.get_agent_info\<close>: \<open>None\<close> stands for the empty dict of an unknown name.\<close>

definition get_agent_info :: "string \<Rightarrow> agent_entry option" where
  "get_agent_info agent_name = map_of AGENTS agent_name"

definition check_role_permission :: "string \<Rightarrow> string \<Rightarrow> bool" where
  "check_role_permission agent_name usr_role =
     (case get_agent_info agent_name of
        None \<Rightarrow> False
      | Some agent_info \<Rightarrow>
          (let allowed_roles = roles agent_info
           in ''All'' \<in> set allowed_roles \<or> usr_role \<in> set allowed_roles))"

record analysis =
  has_awaiting_parameters :: bool
  awaiting_agent :: "string option"
  conversation_length :: nat
  has_scratchpad_data :: bool
  is_abandonment :: bool

definition abandonment_keywords :: "string list" where
  "abandonment_keywords = [''never mind'', ''cancel'', ''forget it'', ''stop'', ''quit'']"

definition analyze_context :: "root_agent_state \<Rightarrow> analysis" where
  "analyze_context state =
     (let user_query_lower = lower (user_query state)
      in \<lparr>has_awaiting_parameters = (current_agent_awaiting_parameters state \<noteq> None),
          awaiting_agent = current_agent_awaiting_parameters state,
          conversation_length = length (conversation_history state),
          has_scratchpad_data = (sub_agent_scratchpad state \<noteq> []),
          is_abandonment = list_ex (\<lambda>kw. str_in kw user_query_lower) abandonment_keywords\<rparr>)"

text \<open>The variables the routing prompt is filled with.\<close>

record routing_input =
  ri_user_role :: string
  ri_current_agent_awaiting_parameters :: "string option"
  ri_conversation_history :: string
  ri_user_query :: string

text \<open>\<^verbatim>\<open>xs[-5:]\<close>\<close>

definition last5 :: "'a list \<Rightarrow> 'a list" where
  "last5 xs = drop (length xs - 5) xs"

definition build_routing_input :: "root_agent_state \<Rightarrow> routing_input" where
  "build_routing_input state =
     (let conv_history =
            join ''\<newline>'' (map (\<lambda>msg. role msg @ '': '' @ content msg)
                                  (last5 (conversation_history state)))
      in \<lparr>ri_user_role = user_role state,
          ri_current_agent_awaiting_parameters = current_agent_awaiting_parameters state,
          ri_conversation_history =
            (if conv_history \<noteq> [] then conv_history else ''No previous conversation''),
          ri_user_query = user_query state\<rparr>)"

text \<open>
  The \<^verbatim>\<open>CONTINUE_CURRENT\<close> step of \<^verbatim>\<open>route\<close>: the directive is replaced by the
  awaiting agent when that field is truthy.
\<close>

definition resolve_continue :: "root_agent_state \<Rightarrow> string \<Rightarrow> string" where
  "resolve_continue state agent_name =
     (case current_agent_awaiting_parameters state of
        Some awaiting \<Rightarrow>
          (if agent_name = ''CONTINUE_CURRENT'' \<and> awaiting \<noteq> [] then awaiting else agent_name)
      | None \<Rightarrow> agent_name)"

text \<open>
  \<^verbatim>\<open>RootAgentRouter.route\<close>. The classifier \<open>routing_chain\<close> is the external
  capability: it returns the model's text or raises.
\<close>

definition route :: "(routing_input \<Rightarrow> exn + string) \<Rightarrow> root_agent_state \<Rightarrow> exn + string" where
  "route routing_chain state =
     (let ctx = analyze_context state
      in if is_abandonment ctx \<and> has_awaiting_parameters ctx then Inr ''faq_fallback_agent''
         else
           (case routing_chain (build_routing_input state) of
              Inl e \<Rightarrow> Inl e
            | Inr decision \<Rightarrow>
                (let agent_name = resolve_continue state (strip decision)
                 in if agent_name \<noteq> ''faq_fallback_agent''
                       \<and> \<not> check_role_permission agent_name (user_role state)
                    then Inr ''faq_fallback_agent''
                    else Inr agent_name)))"

definition router_node :: "(routing_input \<Rightarrow> exn + string) \<Rightarrow> root_agent_state \<Rightarrow> outcome" where
  "router_node routing_chain state =
     (case route routing_chain state of
        Inl e \<Rightarrow> Inl (e, state)
      | Inr agent_name \<Rightarrow> Inr (state\<lparr>current_agent := Some agent_name\<rparr>))"


section \<open>The generation capability\<close>

text \<open>
  Every agent builds a prompt and invokes the language model on it. The model is the
  external capability \<open>llm\<close>: it is given the variables the prompt is filled with and
  returns the response text or raises. The fixed prompt texts are not modelled.
\<close>

datatype gen_request =
    AssignmentPrompt (p_assignment_title: pyval) (p_grade: string) (p_status: string)
      (p_feedback: string) (p_due_date: string) (p_user_query: string)
  | LearningPrompt (p_topic: pyval) (p_skill_level: pyval) (p_resources: string)
      (p_user_query: string)
  | QuestionPrompt (p_count: pyval) (p_difficulty: pyval) (p_topic: pyval)
  | FallbackPrompt (p_user_query: string)

record validation =
  complete :: bool
  missing :: "string list"
  clarification :: "string option"


section \<open>agents/assignment\_review\_agent.py\<close>

definition AssignmentReviewAgent_validate_parameters :: "root_agent_state \<Rightarrow> validation" where
  "AssignmentReviewAgent_validate_parameters state =
     (let scratchpad = sub_agent_scratchpad state;
          has_assignment =
            (slot_truthy scratchpad ''assignment_id'' \<or> slot_truthy scratchpad ''assignment_title'')
      in if \<not> has_assignment
         then \<lparr>complete = False,
               missing = [''assignment_id or assignment_title''],
               clarification =
                 Some ''Which assignment are you interested in? Please provide the assignment name or ID.''\<rparr>
         else \<lparr>complete = True, missing = [], clarification = None\<rparr>)"

text \<open>
  The loop over \<^verbatim>\<open>enumerate(words)\<close>: each word that is one of the three marker words
  and has a successor assigns the next two words to \<open>assignment_title\<close>.
\<close>

definition title_after_marker :: "string list \<Rightarrow> scratchpad \<Rightarrow> scratchpad" where
  "title_after_marker words scratchpad =
     fold (\<lambda>(i, word) sp.
             if lower word \<in> set [''assignment'', ''task'', ''homework'']
             then (if i + 1 < length words
                   then AList.update ''assignment_title''
                          (PStr (join '' '' (take 2 (drop (i + 1) words)))) sp
                   else sp)
             else sp)
          (enumerate 0 words) scratchpad"

definition AssignmentReviewAgent_extract_parameters :: "root_agent_state \<Rightarrow> root_agent_state" where
  "AssignmentReviewAgent_extract_parameters state =
     (let query = lower (user_query state);
          scratchpad = sub_agent_scratchpad state;
          scratchpad' =
            (if str_in ''python'' query \<and> str_in ''basic'' query
             then AList.update ''assignment_title'' (PStr ''Python Basics'') scratchpad
             else if str_in ''assignment'' query
             then title_after_marker (split (user_query state)) scratchpad
             else scratchpad)
      in state\<lparr>sub_agent_scratchpad := scratchpad'\<rparr>)"

record assignment_result =
  grade :: string
  feedback :: string
  due_date :: string
  status :: string
  submission_date :: "string option"

definition mock_assignments :: "(string \<times> assignment_result) list" where
  "mock_assignments =
     [(''Python Basics'',
       \<lparr>grade = ''85%'',
        feedback = ''Good understanding of core concepts, but consider reviewing list comprehensions for efficiency.'',
        due_date = ''2025-11-15'',
        status = ''Completed'',
        submission_date = Some ''2025-11-10''\<rparr>),
      (''Data Structures'',
       \<lparr>grade = ''92%'',
        feedback = ''Excellent work on implementing binary trees. Great optimization!'',
        due_date = ''2025-11-20'',
        status = ''Completed'',
        submission_date = Some ''2025-11-18''\<rparr>)]"

definition get_assignment_results :: "pyval \<Rightarrow> string \<Rightarrow> assignment_result" where
  "get_assignment_results assignment_title uid =
     (let not_found = \<lparr>grade = ''Not available'',
                       feedback = ''Assignment not found or not yet graded.'',
                       due_date = ''N/A'',
                       status = ''Unknown'',
                       submission_date = None\<rparr>
      in case assignment_title of
           PStr t \<Rightarrow> (case map_of mock_assignments t of Some r \<Rightarrow> r | None \<Rightarrow> not_found)
         | PInt i \<Rightarrow> not_found)"

definition AssignmentReviewAgent_generate_response ::
  "(gen_request \<Rightarrow> exn + string) \<Rightarrow> root_agent_state \<Rightarrow> exn + string" where
  "AssignmentReviewAgent_generate_response llm state =
     (let scratchpad = sub_agent_scratchpad state;
          assignment_title = get_or scratchpad ''assignment_title'' (PStr ''Unknown'');
          results = get_assignment_results assignment_title (user_id state)
      in llm (AssignmentPrompt assignment_title (grade results) (status results)
                (feedback results) (due_date results) (user_query state)))"

definition assignment_review_node ::
  "(gen_request \<Rightarrow> exn + string) \<Rightarrow> root_agent_state \<Rightarrow> outcome" where
  "assignment_review_node llm state0 =
     (let state = AssignmentReviewAgent_extract_parameters state0;
          v = AssignmentReviewAgent_validate_parameters state
      in if \<not> complete v
         then (case clarification v of
                 None \<Rightarrow> Inl (KeyError ''clarification'', state)
               | Some txt \<Rightarrow>
                   Inr (state\<lparr>system_response := txt,
                              current_agent_awaiting_parameters := Some ''assignment_review_agent''\<rparr>))
         else (case AssignmentReviewAgent_generate_response llm state of
                 Inl e \<Rightarrow> Inl (e, state)
               | Inr txt \<Rightarrow>
                   Inr (state\<lparr>system_response := txt,
                              current_agent_awaiting_parameters := None,
                              sub_agent_scratchpad := []\<rparr>)))"


section \<open>agents/learning\_path\_agent.py\<close>

definition LearningPathAgent_validate_parameters :: "root_agent_state \<Rightarrow> validation" where
  "LearningPathAgent_validate_parameters state =
     (let scratchpad = sub_agent_scratchpad state;
          missing1 = (if \<not> slot_truthy scratchpad ''topic'' then [''topic''] else []);
          missing2 = missing1 @ (if \<not> slot_truthy scratchpad ''skill_level'' then [''skill_level''] else [])
      in if missing2 \<noteq> []
         then (let c0 = ''To recommend the best learning resources for you, I need:\<newline>'';
                   c1 = c0 @ (if ''topic'' \<in> set missing2
                              then ''- What topic would you like to learn?\<newline>'' else []);
                   c2 = c1 @ (if ''skill_level'' \<in> set missing2
                              then ''- What is your current skill level? (Beginner/Intermediate/Advanced)\<newline>''
                              else [])
               in \<lparr>complete = False, missing = missing2, clarification = Some (strip c2)\<rparr>)
         else \<lparr>complete = True, missing = [], clarification = None\<rparr>)"

definition learning_topics :: "string list" where
  "learning_topics =
     [''machine learning'', ''python'', ''data science'', ''nlp'', ''natural language processing'',
      ''deep learning'', ''web development'', ''javascript'', ''react'', ''sql'', ''databases'']"

text \<open>The first topic of the list that occurs in the query, if any (the loop with \<^verbatim>\<open>break\<close>).\<close>

definition first_topic :: "string list \<Rightarrow> string \<Rightarrow> string option" where
  "first_topic topics query = List.find (\<lambda>topic. str_in topic query) topics"

text \<open>The block \<^verbatim>\<open># Extract topic\<close> of \<^verbatim>\<open>LearningPathAgent.extract_parameters\<close>.\<close>

definition learning_extract_topic :: "string \<Rightarrow> scratchpad \<Rightarrow> scratchpad" where
  "learning_extract_topic query scratchpad =
     (case first_topic learning_topics query of
        None \<Rightarrow> scratchpad
      | Some topic \<Rightarrow>
          (let sp = AList.update ''topic'' (PStr (str_title topic)) scratchpad
           in if topic = ''nlp''
              then AList.update ''topic'' (PStr ''Natural Language Processing'') sp
              else sp))"

text \<open>The block \<^verbatim>\<open># Extract skill level\<close>.\<close>

definition learning_extract_skill_level :: "string \<Rightarrow> scratchpad \<Rightarrow> scratchpad" where
  "learning_extract_skill_level query scratchpad =
     (if str_in ''beginner'' query \<or> str_in ''new to'' query \<or> str_in ''starting'' query
      then AList.update ''skill_level'' (PStr ''Beginner'') scratchpad
      else if str_in ''intermediate'' query \<or> str_in ''some experience'' query
      then AList.update ''skill_level'' (PStr ''Intermediate'') scratchpad
      else if str_in ''advanced'' query \<or> str_in ''expert'' query
      then AList.update ''skill_level'' (PStr ''Advanced'') scratchpad
      else scratchpad)"

definition LearningPathAgent_extract_parameters :: "root_agent_state \<Rightarrow> root_agent_state" where
  "LearningPathAgent_extract_parameters state =
     (let query = lower (user_query state);
          scratchpad = sub_agent_scratchpad state;
          scratchpad1 = learning_extract_topic query scratchpad;
          scratchpad2 = learning_extract_skill_level query scratchpad1
      in state\<lparr>sub_agent_scratchpad := scratchpad2\<rparr>)"

record resource =
  r_type :: string
  r_title :: "string option"
  r_platform :: "string option"
  r_author :: "string option"

definition learning_resources :: "(string \<times> (string \<times> resource list) list) list" where
  "learning_resources =
     [(''Machine Learning'',
       [(''Beginner'',
         [\<lparr>r_type = ''Course'', r_title = Some ''Machine Learning Basics'',
           r_platform = Some ''Coursera'', r_author = None\<rparr>,
          \<lparr>r_type = ''Book'', r_title = Some ''Hands-On Machine Learning'',
           r_platform = None,
           r_author = Some (''Aur'' @ [CHR 0xC3, CHR 0xA9] @ ''lien G'' @ [CHR 0xC3, CHR 0xA9] @ ''ron'')\<rparr>,
          \<lparr>r_type = ''Project'', r_title = Some ''Build a simple linear regression model'',
           r_platform = None, r_author = None\<rparr>]),
        (''Intermediate'',
         [\<lparr>r_type = ''Course'', r_title = Some ''Advanced ML Techniques'',
           r_platform = Some ''edX'', r_author = None\<rparr>,
          \<lparr>r_type = ''Book'', r_title = Some ''Pattern Recognition and Machine Learning'',
           r_platform = None, r_author = Some ''Bishop''\<rparr>,
          \<lparr>r_type = ''Project'', r_title = Some ''Create an image classifier using CNNs'',
           r_platform = None, r_author = None\<rparr>])]),
      (''Natural Language Processing'',
       [(''Intermediate'',
         [\<lparr>r_type = ''Course'', r_title = Some ''Introduction to NLP with Python'',
           r_platform = Some ''Coursera'', r_author = None\<rparr>,
          \<lparr>r_type = ''Book'', r_title = Some ''Speech and Language Processing'',
           r_platform = None, r_author = Some ''Jurafsky & Martin''\<rparr>,
          \<lparr>r_type = ''Project'', r_title = Some ''Build a sentiment analysis model using NLTK'',
           r_platform = None, r_author = None\<rparr>])])]"

definition recommend_learning_resources :: "pyval \<Rightarrow> pyval \<Rightarrow> resource list" where
  "recommend_learning_resources topic skill_level =
     (let general = [\<lparr>r_type = ''General'',
                      r_title = Some (''Start with foundational courses in '' @ py_str topic),
                      r_platform = None, r_author = None\<rparr>]
      in case (topic, skill_level) of
           (PStr t, PStr l) \<Rightarrow>
             (case map_of learning_resources t of
                None \<Rightarrow> general
              | Some levels \<Rightarrow> (case map_of levels l of None \<Rightarrow> general | Some rs \<Rightarrow> rs))
         | _ \<Rightarrow> general)"

definition format_resource :: "resource \<Rightarrow> string" where
  "format_resource r =
     (let platform_or_author =
            (case r_platform r of
               Some p \<Rightarrow> (if p \<noteq> [] then p else (case r_author r of Some a \<Rightarrow> a | None \<Rightarrow> []))
             | None \<Rightarrow> (case r_author r of Some a \<Rightarrow> a | None \<Rightarrow> []));
          suffix = (if platform_or_author \<noteq> [] then '' ('' @ platform_or_author @ '')'' else [])
      in ''- '' @ r_type r @ '': ''
         @ [CHR 0x27] @ (case r_title r of Some t \<Rightarrow> t | None \<Rightarrow> ''N/A'') @ [CHR 0x27] @ suffix)"

definition LearningPathAgent_generate_response ::
  "(gen_request \<Rightarrow> exn + string) \<Rightarrow> root_agent_state \<Rightarrow> exn + string" where
  "LearningPathAgent_generate_response llm state =
     (let scratchpad = sub_agent_scratchpad state;
          topic = get_or scratchpad ''topic'' (PStr ''Unknown'');
          skill_level = get_or scratchpad ''skill_level'' (PStr ''Beginner'');
          resources = recommend_learning_resources topic skill_level;
          resources_text = join ''\<newline>'' (map format_resource resources)
      in llm (LearningPrompt topic skill_level resources_text (user_query state)))"

definition learning_path_node ::
  "(gen_request \<Rightarrow> exn + string) \<Rightarrow> root_agent_state \<Rightarrow> outcome" where
  "learning_path_node llm state0 =
     (let state = LearningPathAgent_extract_parameters state0;
          v = LearningPathAgent_validate_parameters state
      in if \<not> complete v
         then (case clarification v of
                 None \<Rightarrow> Inl (KeyError ''clarification'', state)
               | Some txt \<Rightarrow>
                   Inr (state\<lparr>system_response := txt,
                              current_agent_awaiting_parameters := Some ''learning_path_agent''\<rparr>))
         else (case LearningPathAgent_generate_response llm state of
                 Inl e \<Rightarrow> Inl (e, state)
               | Inr txt \<Rightarrow>
                   Inr (state\<lparr>system_response := txt,
                              current_agent_awaiting_parameters := None,
                              sub_agent_scratchpad := []\<rparr>)))"


section \<open>agents/question\_generation\_agent.py\<close>

definition QuestionGenerationAgent_check_permissions :: "root_agent_state \<Rightarrow> bool" where
  "QuestionGenerationAgent_check_permissions state = (user_role state = ''Admin'')"

text \<open>
  \<^verbatim>\<open>validate_parameters\<close> writes the default count into the scratchpad dict it was
  handed, which is the state's own: the state is returned with the result.
\<close>

definition QuestionGenerationAgent_validate_parameters ::
  "root_agent_state \<Rightarrow> validation \<times> root_agent_state" where
  "QuestionGenerationAgent_validate_parameters state =
     (let scratchpad = sub_agent_scratchpad state;
          missing1 = (if \<not> slot_truthy scratchpad ''topic'' then [''topic''] else []);
          missing2 = missing1 @ (if \<not> slot_truthy scratchpad ''difficulty'' then [''difficulty''] else []);
          scratchpad' = (if \<not> slot_truthy scratchpad ''question_count''
                         then AList.update ''question_count'' (PInt 5) scratchpad
                         else scratchpad);
          state' = state\<lparr>sub_agent_scratchpad := scratchpad'\<rparr>
      in if missing2 \<noteq> []
         then (let c0 = ''To generate questions, I need:\<newline>'';
                   c1 = c0 @ (if ''topic'' \<in> set missing2
                              then ''- What topic should the questions cover?\<newline>'' else []);
                   c2 = c1 @ (if ''difficulty'' \<in> set missing2
                              then ''- What difficulty level? (Easy/Medium/Hard)\<newline>'' else [])
               in (\<lparr>complete = False, missing = missing2, clarification = Some (strip c2)\<rparr>, state'))
         else (\<lparr>complete = True, missing = [], clarification = None\<rparr>, state'))"

definition question_topics :: "string list" where
  "question_topics =
     [''python'', ''machine learning'', ''data science'', ''sql'', ''javascript'',
      ''algorithms'', ''data structures'', ''web development'']"

text \<open>The block \<^verbatim>\<open># Extract topic\<close> of \<^verbatim>\<open>QuestionGenerationAgent.extract_parameters\<close>.\<close>

definition question_extract_topic :: "string \<Rightarrow> scratchpad \<Rightarrow> scratchpad" where
  "question_extract_topic query scratchpad =
     (case first_topic question_topics query of
        None \<Rightarrow> scratchpad
      | Some topic \<Rightarrow> AList.update ''topic'' (PStr (str_title topic)) scratchpad)"

text \<open>The block \<^verbatim>\<open># Extract difficulty\<close>.\<close>

definition question_extract_difficulty :: "string \<Rightarrow> scratchpad \<Rightarrow> scratchpad" where
  "question_extract_difficulty query scratchpad =
     (if str_in ''easy'' query \<or> str_in ''beginner'' query
      then AList.update ''difficulty'' (PStr ''Easy'') scratchpad
      else if str_in ''medium'' query \<or> str_in ''intermediate'' query
      then AList.update ''difficulty'' (PStr ''Medium'') scratchpad
      else if str_in ''hard'' query \<or> str_in ''advanced'' query \<or> str_in ''difficult'' query
      then AList.update ''difficulty'' (PStr ''Hard'') scratchpad
      else scratchpad)"

text \<open>The block \<^verbatim>\<open># Extract question count\<close>.\<close>

definition question_extract_count :: "string \<Rightarrow> scratchpad \<Rightarrow> scratchpad" where
  "question_extract_count query scratchpad =
     (case first_number query of
        None \<Rightarrow> scratchpad
      | Some ds \<Rightarrow> AList.update ''question_count'' (PInt (int_of_digits ds)) scratchpad)"

definition QuestionGenerationAgent_extract_parameters :: "root_agent_state \<Rightarrow> root_agent_state" where
  "QuestionGenerationAgent_extract_parameters state =
     (let query = lower (user_query state);
          scratchpad = sub_agent_scratchpad state;
          scratchpad1 = question_extract_topic query scratchpad;
          scratchpad2 = question_extract_difficulty query scratchpad1;
          scratchpad3 = question_extract_count query scratchpad2
      in state\<lparr>sub_agent_scratchpad := scratchpad3\<rparr>)"

definition QuestionGenerationAgent_generate_response ::
  "(gen_request \<Rightarrow> exn + string) \<Rightarrow> root_agent_state \<Rightarrow> exn + string" where
  "QuestionGenerationAgent_generate_response llm state =
     (let scratchpad = sub_agent_scratchpad state;
          topic = get_or scratchpad ''topic'' (PStr ''Unknown'');
          difficulty = get_or scratchpad ''difficulty'' (PStr ''Medium'');
          count = get_or scratchpad ''question_count'' (PInt 5)
      in case llm (QuestionPrompt count difficulty topic) of
           Inl e \<Rightarrow> Inl e
         | Inr questions \<Rightarrow>
             Inr (''I've generated '' @ py_str count @ '' '' @ py_str difficulty
                  @ '' level questions about '' @ py_str topic @ '':\<newline>\<newline>'' @ questions
                  @ ''\<newline>\<newline>Would you like me to generate more questions or modify these?''))"

definition question_generation_node ::
  "(gen_request \<Rightarrow> exn + string) \<Rightarrow> root_agent_state \<Rightarrow> outcome" where
  "question_generation_node llm state0 =
     (if \<not> QuestionGenerationAgent_check_permissions state0
      then Inr (state0\<lparr>system_response :=
                         ''I'm sorry, but question generation is only available to Admin users. You are currently logged in as a Consultant.'',
                       current_agent_awaiting_parameters := None,
                       sub_agent_scratchpad := []\<rparr>)
      else
        (let state1 = QuestionGenerationAgent_extract_parameters state0;
             (v, state) = QuestionGenerationAgent_validate_parameters state1
         in if \<not> complete v
            then (case clarification v of
                    None \<Rightarrow> Inl (KeyError ''clarification'', state)
                  | Some txt \<Rightarrow>
                      Inr (state\<lparr>system_response := txt,
                                 current_agent_awaiting_parameters := Some ''question_generation_agent''\<rparr>))
            else (case QuestionGenerationAgent_generate_response llm state of
                    Inl e \<Rightarrow> Inl (e, state)
                  | Inr txt \<Rightarrow>
                      Inr (state\<lparr>system_response := txt,
                                 current_agent_awaiting_parameters := None,
                                 sub_agent_scratchpad := []\<rparr>))))"


section \<open>agents/faq\_fallback\_agent.py\<close>

definition faq_db :: "(string \<times> string) list" where
  \<open>faq_db =
     [(''how to submit assignment'',
       ''To submit an assignment, log into the portal, navigate to your Assignments section, select the assignment, and click the "Submit" button. You can upload files or paste your work directly.''),
      (''how to check grades'',
       ''You can check your grades by going to the Assignments section and clicking on any completed assignment. Your grade and feedback will be displayed.''),
      (''forgot password'',
       ''To reset your password, click on "Forgot Password" on the login page. Enter your email, and you'll receive a password reset link.''),
      (''portal features'',
       ''The portal offers assignment tracking, grade viewing, learning path recommendations, and practice question generation (for admins). You can also view your performance insights.''),
      (''contact support'',
       ''You can contact support by emailing support@studyportal.com or using the "Contact Us" form in the Help section.'')]\<close>

definition search_faq :: "string \<Rightarrow> string option" where
  "search_faq query =
     (let user_query_lower = lower query
      in map_option snd
           (List.find (\<lambda>(key, answer). list_ex (\<lambda>word. str_in word user_query_lower) (split key))
                      faq_db))"

definition handle_greeting :: "string \<Rightarrow> bool" where
  "handle_greeting query =
     (let greetings = [''hello'', ''hi'', ''hey'', ''good morning'', ''good afternoon'', ''good evening''];
          user_query_lower = lower query
      in list_ex (\<lambda>greeting. str_in greeting user_query_lower) greetings)"

definition handle_thanks :: "string \<Rightarrow> bool" where
  "handle_thanks query =
     (let thanks = [''thank'', ''thanks'', ''appreciate'', ''grateful''];
          user_query_lower = lower query
      in list_ex (\<lambda>thank. str_in thank user_query_lower) thanks)"

definition greeting_text :: string where
  "greeting_text = ''Hello! I'm here to help you with your study portal. You can ask me about:\<newline>- Your assignments and grades\<newline>- Learning recommendations\<newline>- General questions about the portal\<newline>\<newline>What would you like to know?''"

definition thanks_text :: string where
  "thanks_text = ''You're welcome! Feel free to ask if you need anything else. Happy learning! ''
                 @ [CHR 0xF0, CHR 0x9F, CHR 0x98, CHR 0x8A]"

definition FAQFallbackAgent_generate_response ::
  "(gen_request \<Rightarrow> exn + string) \<Rightarrow> root_agent_state \<Rightarrow> exn + string" where
  "FAQFallbackAgent_generate_response llm state =
     (let query = user_query state
      in if handle_greeting query then Inr greeting_text
         else if handle_thanks query then Inr thanks_text
         else (case search_faq query of
                 Some faq_answer \<Rightarrow>
                   (if faq_answer \<noteq> [] then Inr faq_answer else llm (FallbackPrompt query))
               | None \<Rightarrow> llm (FallbackPrompt query)))"

definition faq_fallback_node ::
  "(gen_request \<Rightarrow> exn + string) \<Rightarrow> root_agent_state \<Rightarrow> outcome" where
  "faq_fallback_node llm state =
     (case FAQFallbackAgent_generate_response llm state of
        Inl e \<Rightarrow> Inl (e, state)
      | Inr txt \<Rightarrow>
          Inr (state\<lparr>system_response := txt,
                     current_agent_awaiting_parameters := None,
                     sub_agent_scratchpad := []\<rparr>))"


section \<open>orchestrator.py\<close>

text \<open>
  The conditional edge after the router: \<^verbatim>\<open>route_to_agent\<close> reads \<open>current_agent\<close>, and
  the node registered under that name runs.
\<close>

definition route_to_agent ::
  "(gen_request \<Rightarrow> exn + string) \<Rightarrow> root_agent_state \<Rightarrow> outcome" where
  "route_to_agent llm state =
     (case current_agent state of
        None \<Rightarrow> Inl (GraphError ''None'', state)
      | Some agent \<Rightarrow>
          if agent = ''assignment_review_agent'' then assignment_review_node llm state
          else if agent = ''learning_path_agent'' then learning_path_node llm state
          else if agent = ''question_generation_agent'' then question_generation_node llm state
          else if agent = ''faq_fallback_agent'' then faq_fallback_node llm state
          else Inl (GraphError agent, state))"

text \<open>
  The compiled graph: the router node, then the node of the conditional edge, then the
  end. The graph runs its nodes on a dict of its own, filled from the dict it is invoked
  with, and returns that dict at the end. When a node raises, the caller's dict
  \<open>state0\<close> therefore has none of the keys the nodes assigned (not the router's
  \<open>current_agent\<close> either). The scratchpad dict is the same object in both, so what
  extraction and validation stored in it before the raise is in the caller's scratchpad.
\<close>

definition graph_invoke ::
  "(routing_input \<Rightarrow> exn + string) \<Rightarrow> (gen_request \<Rightarrow> exn + string) \<Rightarrow> root_agent_state \<Rightarrow> outcome" where
  "graph_invoke routing_chain llm state0 =
     (case router_node routing_chain state0 of
        Inl (e, raised) \<Rightarrow> Inl (e, state0)
      | Inr state \<Rightarrow>
          (case route_to_agent llm state of
             Inl (e, raised) \<Rightarrow>
               Inl (e, state0\<lparr>sub_agent_scratchpad := sub_agent_scratchpad raised\<rparr>)
           | Inr result \<Rightarrow> Inr result))"

text \<open>
  \<^verbatim>\<open>StudyPortalOrchestrator.process_message\<close>; \<open>t_user\<close> and \<open>t_system\<close> are the two readings of
  the clock. The user's message is appended to the caller's history list in place, before
  the graph runs, so it is there when the graph raises.
\<close>

definition process_message ::
  "string \<Rightarrow> string \<Rightarrow> (routing_input \<Rightarrow> exn + string) \<Rightarrow> (gen_request \<Rightarrow> exn + string)
     \<Rightarrow> root_agent_state \<Rightarrow> outcome" where
  "process_message t_user t_system routing_chain llm state0 =
     (let user_message = \<lparr>role = ''user'', content = user_query state0, timestamp = Some t_user\<rparr>;
          state = state0\<lparr>conversation_history := conversation_history state0 @ [user_message]\<rparr>
      in case graph_invoke routing_chain llm state of
           Inl failure \<Rightarrow> Inl failure
         | Inr result \<Rightarrow>
             (let system_message =
                    \<lparr>role = ''assistant'', content = system_response result, timestamp = Some t_system\<rparr>
              in Inr (result\<lparr>conversation_history := conversation_history result @ [system_message]\<rparr>)))"

text \<open>
  One pass of the conversation loop of \<^verbatim>\<open>main\<close> on a line of input: the loop ends, or
  goes on with a state and the lines printed.
\<close>

datatype loop_step = Break | Continue root_agent_state "string list"

definition main_turn ::
  "string \<Rightarrow> string \<Rightarrow> (routing_input \<Rightarrow> exn + string) \<Rightarrow> (gen_request \<Rightarrow> exn + string)
     \<Rightarrow> string \<Rightarrow> root_agent_state \<Rightarrow> loop_step" where
  "main_turn t_user t_system routing_chain llm line state0 =
     (let user_input = strip line
      in if lower user_input \<in> set [''quit'', ''exit'', ''bye''] then Break
         else if user_input = [] then Continue state0 []
         else
           (case process_message t_user t_system routing_chain llm (state0\<lparr>user_query := user_input\<rparr>) of
              Inr state \<Rightarrow>
                Continue state
                  ((''\<newline>Assistant: '' @ system_response state @ ''\<newline>'')
                   # (case error state of
                        Some e \<Rightarrow>
                          (if e \<noteq> []
                           then [[CHR 0xE2, CHR 0x9A, CHR 0xA0, CHR 0xEF, CHR 0xB8, CHR 0x8F]
                                 @ '' Error: '' @ e @ ''\<newline>'']
                           else [])
                      | None \<Rightarrow> []))
            | Inl (e, state) \<Rightarrow>
                Continue (state\<lparr>current_agent_awaiting_parameters := None,
                                sub_agent_scratchpad := []\<rparr>)
                  [''\<newline>'' @ [CHR 0xE2, CHR 0x9D, CHR 0x8C] @ '' Error processing request: ''
                   @ exn_str e @ ''\<newline>'']))"


section \<open>websocket\_server.py\<close>

text \<open>
  An incoming frame is invalid JSON, or an object whose \<open>user_query\<close> entry (the empty
  string when absent) is the query.
\<close>

datatype ws_frame = InvalidJson | Query string

datatype ws_reply =
    ErrorReply string
  | ResponseReply (response: string) (agent_used: "string option") (awaiting_parameters: bool)
      (reply_timestamp: string) (reply_error: "string option")

definition handle_message ::
  "string \<Rightarrow> string \<Rightarrow> string \<Rightarrow> (routing_input \<Rightarrow> exn + string) \<Rightarrow> (gen_request \<Rightarrow> exn + string)
     \<Rightarrow> ws_frame \<Rightarrow> root_agent_state \<Rightarrow> ws_reply \<times> root_agent_state" where
  "handle_message t_user t_system t_reply routing_chain llm frame session_state =
     (case frame of
        InvalidJson \<Rightarrow> (ErrorReply ''Invalid JSON format'', session_state)
      | Query q \<Rightarrow>
          (let query = strip q
           in if query = [] then (ErrorReply ''No query provided'', session_state)
              else
                (case process_message t_user t_system routing_chain llm
                        (session_state\<lparr>user_query := query\<rparr>) of
                   Inr result \<Rightarrow>
                     (ResponseReply (system_response result) (current_agent result)
                        (current_agent_awaiting_parameters result \<noteq> None) t_reply
                        (case error result of
                           Some e \<Rightarrow> (if e \<noteq> [] then Some e else None)
                         | None \<Rightarrow> None),
                      result)
                 | Inl (e, state) \<Rightarrow>
                     (ErrorReply (''Error processing message: '' @ exn_str e), state))))"


text \<open>The state \<^verbatim>\<open>main\<close> starts the conversation with, for the user and role entered.\<close>

definition initial_state :: "string \<Rightarrow> string \<Rightarrow> root_agent_state" where
  "initial_state uid urole =
     \<lparr>user_id = uid,
      user_role = urole,
      user_query = [],
      conversation_history = [],
      current_agent = None,
      current_agent_awaiting_parameters = None,
      sub_agent_scratchpad = [],
      system_response = [],
      error = None,
      current_assignment_id = None,
      current_topic = None\<rparr>"


section \<open>Stand-ins for the external capabilities\<close>

text \<open>
  Two behaviours of an external capability, for running the system on concrete inputs:
  one that answers every request with the same text, and one that raises on every request.
\<close>

definition answers :: "string \<Rightarrow> 'a \<Rightarrow> exn + string" where
  "answers txt request = Inr txt"

definition unavailable :: "string \<Rightarrow> 'a \<Rightarrow> exn + string" where
  "unavailable msg request = Inl (CapabilityError msg)"


section \<open>Substring containment\<close>

text \<open>\<open>str_in\<close> is containment as a contiguous substring.\<close>

lemma startswith_iff: "startswith n h \<longleftrightarrow> (\<exists>ss. h = n @ ss)"
  by (induction n h rule: startswith.induct) auto

lemma str_in_iff: "str_in n h \<longleftrightarrow> (\<exists>ps ss. h = ps @ n @ ss)"
proof (induction h)
  case Nil
  then show ?case by auto
next
  case (Cons a h)
  show ?case
  proof
    assume "str_in n (a # h)"
    then consider "startswith n (a # h)" | "str_in n h" by auto
    then show "\<exists>ps ss. a # h = ps @ n @ ss"
    proof cases
      case 1
      then obtain ss where "a # h = n @ ss" by (auto simp: startswith_iff)
      then have "a # h = [] @ n @ ss" by simp
      then show ?thesis by blast
    next
      case 2
      then obtain ps ss where "h = ps @ n @ ss" using Cons.IH by auto
      then have "a # h = (a # ps) @ n @ ss" by simp
      then show ?thesis by blast
    qed
  next
    assume "\<exists>ps ss. a # h = ps @ n @ ss"
    then obtain ps ss where e: "a # h = ps @ n @ ss" by blast
    show "str_in n (a # h)"
    proof (cases ps)
      case Nil
      then have "startswith n (a # h)" using e by (auto simp: startswith_iff)
      then show ?thesis by simp
    next
      case (Cons b ps')
      then have "h = ps' @ n @ ss" using e by simp
      then have "str_in n h" using Cons.IH by blast
      then show ?thesis by simp
    qed
  qed
qed

lemma is_abandonment_iff:
  "is_abandonment (analyze_context state) \<longleftrightarrow>
     (\<exists>kw \<in> set abandonment_keywords. \<exists>ps ss. lower (user_query state) = ps @ kw @ ss)"
  by (simp add: analyze_context_def Let_def list_ex_iff str_in_iff)

lemma route_abandonment:
  "is_abandonment (analyze_context state) \<Longrightarrow> current_agent_awaiting_parameters state \<noteq> None
     \<Longrightarrow> route routing_chain state = Inr ''faq_fallback_agent''"
  by (simp add: route_def Let_def analyze_context_def)

text \<open>
  Claim C10. Abandonment is detected by substring containment: whenever a handler is
  awaiting parameters and the lower-cased utterance contains one of the five abandonment
  keywords anywhere, also inside a longer word, \<open>route\<close> returns the fallback handler,
  whatever the classifier is: it is not consulted, so even a classifier that raises
  does not change the result.
\<close>

theorem abandonment_by_substring:
  assumes "current_agent_awaiting_parameters state \<noteq> None"
    and "kw \<in> set abandonment_keywords"
    and "lower (user_query state) = before @ kw @ after"
  shows "route routing_chain state = Inr ''faq_fallback_agent''"
proof -
  have "is_abandonment (analyze_context state)"
    using assms(2,3) unfolding is_abandonment_iff by blast
  then show ?thesis using assms(1) by (rule route_abandonment)
qed

theorem abandonment_by_substring_witness:
  "current_agent_awaiting_parameters
      ((initial_state ''u1'' ''Consultant'')
         \<lparr>user_query := ''I am Unstoppable'',
          current_agent_awaiting_parameters := Some ''learning_path_agent''\<rparr>) \<noteq> None
   \<and> ''stop'' \<in> set abandonment_keywords
   \<and> lower (user_query
        ((initial_state ''u1'' ''Consultant'')
           \<lparr>user_query := ''I am Unstoppable'',
            current_agent_awaiting_parameters := Some ''learning_path_agent''\<rparr>))
       = ''i am un'' @ ''stop'' @ ''pable''
   \<and> route (unavailable ''classifier unavailable'')
        ((initial_state ''u1'' ''Consultant'')
           \<lparr>user_query := ''I am Unstoppable'',
            current_agent_awaiting_parameters := Some ''learning_path_agent''\<rparr>)
       = Inr ''faq_fallback_agent''"
proof -
  let ?s = "(initial_state ''u1'' ''Consultant'')
         \<lparr>user_query := ''I am Unstoppable'',
          current_agent_awaiting_parameters := Some ''learning_path_agent''\<rparr>"
  have a: "current_agent_awaiting_parameters ?s \<noteq> None" by simp
  have b: "''stop'' \<in> set abandonment_keywords" by (simp add: abandonment_keywords_def)
  have c: "lower (user_query ?s) = ''i am un'' @ ''stop'' @ ''pable''"
    by (simp add: lower_def lower_char_def ascii_uppercase_def ascii_lowercase_def)
  show ?thesis
    using a b c abandonment_by_substring [OF a b c, of "unavailable ''classifier unavailable''"]
    by blast
qed

text \<open>The same inside the word \<open>quite\<close>.\<close>

lemma quite_is_abandonment:
  "route (unavailable ''classifier unavailable'')
     ((initial_state ''u1'' ''Consultant'')
        \<lparr>user_query := ''That is quite hard'',
         current_agent_awaiting_parameters := Some ''learning_path_agent''\<rparr>)
   = Inr ''faq_fallback_agent''"
  by code_simp


section \<open>The router\<close>

lemma get_agent_info_cases:
  "get_agent_info H = Some entry \<Longrightarrow>
     H \<in> {''assignment_review_agent'', ''learning_path_agent'', ''question_generation_agent'',
          ''faq_fallback_agent''}"
  by (auto simp: get_agent_info_def AGENTS_def split: if_splits)

lemma roles_of_agents:
  "map_option roles (get_agent_info ''assignment_review_agent'') = Some [''Consultant'']"
  "map_option roles (get_agent_info ''learning_path_agent'') = Some [''Consultant'']"
  "map_option roles (get_agent_info ''question_generation_agent'') = Some [''Admin'']"
  "map_option roles (get_agent_info ''faq_fallback_agent'') = Some [''All'']"
  by (simp_all add: get_agent_info_def AGENTS_def)

lemma restricted_handlers:
  "{H. \<exists>entry. get_agent_info H = Some entry \<and> ''All'' \<notin> set (roles entry)}
     = {''assignment_review_agent'', ''learning_path_agent'', ''question_generation_agent''}"
  by (auto simp: get_agent_info_def AGENTS_def split: if_splits)

lemma route_result:
  "route routing_chain state = Inr a \<Longrightarrow>
     a = ''faq_fallback_agent'' \<or> check_role_permission a (user_role state)"
  by (auto simp: route_def Let_def split: if_splits sum.splits)

lemma route_after_classifier:
  assumes "routing_chain (build_routing_input state) = Inr decision"
    and "\<not> (is_abandonment (analyze_context state)
             \<and> current_agent_awaiting_parameters state \<noteq> None)"
  shows "route routing_chain state =
           Inr (let a = resolve_continue state (strip decision)
                in if a \<noteq> ''faq_fallback_agent'' \<and> \<not> check_role_permission a (user_role state)
                   then ''faq_fallback_agent'' else a)"
  using assms by (auto simp: route_def Let_def analyze_context_def)

text \<open>
  Claim C2. The permission gate: for a registered handler \<open>H\<close> whose allowed roles do
  not contain the \<open>All\<close> sentinel (by \<open>restricted_handlers\<close> these are
  \<open>assignment_review_agent\<close>, \<open>learning_path_agent\<close> and \<open>question_generation_agent\<close>)
  and a user role outside \<open>H\<close>'s allowed roles, \<open>route\<close> never returns \<open>H\<close>, whatever the
  classifier does; when the classifier's answer resolves to \<open>H\<close>, \<open>route\<close> returns
  \<open>faq_fallback_agent\<close> instead. A handler whose allowed roles contain \<open>All\<close> is permitted
  for every role.
\<close>

theorem permission_gate:
  assumes "get_agent_info H = Some entry"
    and "''All'' \<notin> set (roles entry)"
    and "user_role state \<notin> set (roles entry)"
  shows "route routing_chain state \<noteq> Inr H
         \<and> (\<forall>decision. routing_chain (build_routing_input state) = Inr decision
               \<and> \<not> (is_abandonment (analyze_context state)
                      \<and> current_agent_awaiting_parameters state \<noteq> None)
               \<and> resolve_continue state (strip decision) = H
               \<longrightarrow> route routing_chain state = Inr ''faq_fallback_agent'')
         \<and> (\<forall>H' entry' r. get_agent_info H' = Some entry' \<and> ''All'' \<in> set (roles entry')
               \<longrightarrow> check_role_permission H' r)"
proof -
  have denied: "\<not> check_role_permission H (user_role state)"
    using assms by (simp add: check_role_permission_def Let_def)
  have not_fallback: "H \<noteq> ''faq_fallback_agent''"
    using assms(1,2) roles_of_agents(4) by auto
  have 1: "route routing_chain state \<noteq> Inr H"
    using route_result [of routing_chain state H] denied not_fallback by blast
  have 2: "route routing_chain state = Inr ''faq_fallback_agent''"
    if "routing_chain (build_routing_input state) = Inr decision"
      and "\<not> (is_abandonment (analyze_context state)
               \<and> current_agent_awaiting_parameters state \<noteq> None)"
      and "resolve_continue state (strip decision) = H" for decision
    using route_after_classifier [of routing_chain state decision] that denied not_fallback
    by (simp add: Let_def)
  have 3: "check_role_permission H' r"
    if "get_agent_info H' = Some entry'" and "''All'' \<in> set (roles entry')" for H' entry' r
    using that by (simp add: check_role_permission_def Let_def)
  show ?thesis using 1 2 3 by blast
qed

theorem permission_gate_witness:
  "get_agent_info ''question_generation_agent''
     = Some \<lparr>name = ''Question Generation Agent'',
             description = ''Generates practice questions, quizzes, and assessments'',
             keyword_hints = [''generate'', ''create'', ''quiz'', ''questions'', ''test'', ''practice'',
                              ''assessment'', ''exam''],
             roles = [''Admin''],
             parameters = [''topic'', ''difficulty'', ''question_count'']\<rparr>
   \<and> ''All'' \<notin> set [''Admin'']
   \<and> user_role ((initial_state ''u1'' ''Consultant'')\<lparr>user_query := ''Generate 5 Python questions''\<rparr>)
        \<notin> set [''Admin'']
   \<and> route (answers ''question_generation_agent'')
        ((initial_state ''u1'' ''Consultant'')\<lparr>user_query := ''Generate 5 Python questions''\<rparr>)
      \<noteq> Inr ''question_generation_agent''
   \<and> route (answers ''question_generation_agent'')
        ((initial_state ''u1'' ''Consultant'')\<lparr>user_query := ''Generate 5 Python questions''\<rparr>)
      = Inr ''faq_fallback_agent''
   \<and> check_role_permission ''faq_fallback_agent'' ''SME''"
proof -
  let ?e = "\<lparr>name = ''Question Generation Agent'',
             description = ''Generates practice questions, quizzes, and assessments'',
             keyword_hints = [''generate'', ''create'', ''quiz'', ''questions'', ''test'', ''practice'',
                              ''assessment'', ''exam''],
             roles = [''Admin''],
             parameters = [''topic'', ''difficulty'', ''question_count'']\<rparr>"
  let ?s = "(initial_state ''u1'' ''Consultant'')\<lparr>user_query := ''Generate 5 Python questions''\<rparr>"
  have a: "get_agent_info ''question_generation_agent'' = Some ?e"
    by (simp add: get_agent_info_def AGENTS_def)
  have b: "''All'' \<notin> set (roles ?e)" by simp
  have c: "user_role ?s \<notin> set (roles ?e)" by (simp add: initial_state_def)
  have d: "answers ''question_generation_agent'' (build_routing_input ?s) = Inr ''question_generation_agent''"
    by (simp add: answers_def)
  have e: "\<not> (is_abandonment (analyze_context ?s) \<and> current_agent_awaiting_parameters ?s \<noteq> None)"
    by (simp add: initial_state_def)
  have f: "resolve_continue ?s (strip ''question_generation_agent'') = ''question_generation_agent''"
    by code_simp
  have g: "get_agent_info ''faq_fallback_agent'' = Some (the (get_agent_info ''faq_fallback_agent''))
           \<and> ''All'' \<in> set (roles (the (get_agent_info ''faq_fallback_agent'')))"
    by (simp add: get_agent_info_def AGENTS_def)
  note t = permission_gate [OF a b c, of "answers ''question_generation_agent''"]
  from t have 1: "route (answers ''question_generation_agent'') ?s \<noteq> Inr ''question_generation_agent''"
    by blast
  from t d e f have 2: "route (answers ''question_generation_agent'') ?s = Inr ''faq_fallback_agent''"
    by blast
  from t g have 3: "check_role_permission ''faq_fallback_agent'' ''SME''"
    by blast
  show ?thesis using a c 1 2 3 by simp
qed

lemma registered_iff:
  "a \<in> set (map fst AGENTS) \<longleftrightarrow> get_agent_info a \<noteq> None"
  by (simp add: get_agent_info_def map_of_eq_None_iff)

lemma permitted_registered:
  "check_role_permission a r \<Longrightarrow> a \<in> set (map fst AGENTS)"
  unfolding registered_iff by (auto simp: check_role_permission_def split: option.splits)

lemma fallback_registered: "''faq_fallback_agent'' \<in> set (map fst AGENTS)"
  by (simp add: AGENTS_def)

text \<open>
  Claim C6, as stated, fails: \<open>route\<close> strips the classifier's output before looking at
  it, so the output \<open>learning_path_agent\<close> followed by a newline, a string that is neither
  a registered handler id nor \<open>CONTINUE_CURRENT\<close>, is not answered with the fallback handler
  but with \<open>learning_path_agent\<close>.
\<close>

theorem classifier_output_counterexample:
  "''learning_path_agent\<newline>'' \<notin> set (map fst AGENTS)
   \<and> ''learning_path_agent\<newline>'' \<noteq> ''CONTINUE_CURRENT''
   \<and> route (answers ''learning_path_agent\<newline>'')
        ((initial_state ''u1'' ''Consultant'')\<lparr>user_query := ''I want to learn Python''\<rparr>)
      = Inr ''learning_path_agent''
   \<and> Inr ''learning_path_agent'' \<noteq> (Inr ''faq_fallback_agent'' :: exn + string)"
  by code_simp

text \<open>
  Claim C6, amended. For every classifier output, read after stripping surrounding
  whitespace: if it is \<open>CONTINUE_CURRENT\<close> and a handler \<open>H\<close> is awaiting (and the turn is
  not an abandonment), the directive resolves to \<open>H\<close>, and \<open>route\<close> returns \<open>H\<close> when the
  role is permitted for it and the fallback handler otherwise; if it is
  \<open>CONTINUE_CURRENT\<close> with nothing awaiting, or any string outside the registry, \<open>route\<close>
  returns the fallback handler. Whenever the classifier returns a string, \<open>route\<close> returns
  a registered handler id: it does not raise.
\<close>

theorem classifier_output_handling:
  assumes "routing_chain (build_routing_input state) = Inr decision"
  shows "(strip decision = ''CONTINUE_CURRENT''
            \<and> current_agent_awaiting_parameters state = Some H \<and> H \<noteq> []
            \<and> \<not> is_abandonment (analyze_context state)
          \<longrightarrow> resolve_continue state (strip decision) = H
              \<and> route routing_chain state =
                  Inr (if H = ''faq_fallback_agent'' \<or> check_role_permission H (user_role state)
                       then H else ''faq_fallback_agent''))
       \<and> ((strip decision = ''CONTINUE_CURRENT''
              \<and> (current_agent_awaiting_parameters state = None
                  \<or> current_agent_awaiting_parameters state = Some []))
            \<or> strip decision \<notin> set (''CONTINUE_CURRENT'' # map fst AGENTS)
          \<longrightarrow> route routing_chain state = Inr ''faq_fallback_agent'')
       \<and> (\<exists>a \<in> set (map fst AGENTS). route routing_chain state = Inr a)"
proof -
  have cc: "\<not> check_role_permission ''CONTINUE_CURRENT'' r" for r
    by (simp add: check_role_permission_def get_agent_info_def AGENTS_def)
  have 1: "resolve_continue state (strip decision) = H
           \<and> route routing_chain state =
                  Inr (if H = ''faq_fallback_agent'' \<or> check_role_permission H (user_role state)
                       then H else ''faq_fallback_agent'')"
    if "strip decision = ''CONTINUE_CURRENT''"
      and "current_agent_awaiting_parameters state = Some H" and "H \<noteq> []"
      and "\<not> is_abandonment (analyze_context state)"
  proof -
    have r: "resolve_continue state (strip decision) = H"
      using that by (simp add: resolve_continue_def)
    show ?thesis
      using route_after_classifier [of routing_chain state decision] assms that(4) r
      by (auto simp: Let_def)
  qed
  have 2: "route routing_chain state = Inr ''faq_fallback_agent''"
    if "(strip decision = ''CONTINUE_CURRENT''
              \<and> (current_agent_awaiting_parameters state = None
                  \<or> current_agent_awaiting_parameters state = Some []))
            \<or> strip decision \<notin> set (''CONTINUE_CURRENT'' # map fst AGENTS)"
  proof (cases "is_abandonment (analyze_context state)
                  \<and> current_agent_awaiting_parameters state \<noteq> None")
    case True
    then show ?thesis by (simp add: route_abandonment)
  next
    case False
    have r: "resolve_continue state (strip decision) = strip decision"
      using that by (auto simp: resolve_continue_def split: option.splits)
    have "\<not> check_role_permission (strip decision) (user_role state)"
      using that cc permitted_registered by auto
    then show ?thesis
      using route_after_classifier [of routing_chain state decision] assms False r
      by (auto simp: Let_def)
  qed
  have 3: "\<exists>a \<in> set (map fst AGENTS). route routing_chain state = Inr a"
  proof (cases "is_abandonment (analyze_context state)
                  \<and> current_agent_awaiting_parameters state \<noteq> None")
    case True
    then show ?thesis using fallback_registered by (simp add: route_abandonment)
  next
    case False
    show ?thesis
      using route_after_classifier [of routing_chain state decision] assms False
            fallback_registered permitted_registered
      by (auto simp: Let_def)
  qed
  show ?thesis using 1 2 3 by blast
qed

theorem classifier_output_handling_witness:
  "answers ''CONTINUE_CURRENT\<newline>''
       (build_routing_input
          ((initial_state ''u1'' ''Consultant'')
             \<lparr>user_query := ''Python'',
              current_agent_awaiting_parameters := Some ''learning_path_agent''\<rparr>))
     = Inr ''CONTINUE_CURRENT\<newline>''
   \<and> strip ''CONTINUE_CURRENT\<newline>'' = ''CONTINUE_CURRENT''
   \<and> \<not> is_abandonment (analyze_context
          ((initial_state ''u1'' ''Consultant'')
             \<lparr>user_query := ''Python'',
              current_agent_awaiting_parameters := Some ''learning_path_agent''\<rparr>))
   \<and> route (answers ''CONTINUE_CURRENT\<newline>'')
          ((initial_state ''u1'' ''Consultant'')
             \<lparr>user_query := ''Python'',
              current_agent_awaiting_parameters := Some ''learning_path_agent''\<rparr>)
     = Inr ''learning_path_agent''"
proof -
  let ?s = "(initial_state ''u1'' ''Consultant'')
             \<lparr>user_query := ''Python'',
              current_agent_awaiting_parameters := Some ''learning_path_agent''\<rparr>"
  have a: "answers ''CONTINUE_CURRENT\<newline>'' (build_routing_input ?s) = Inr ''CONTINUE_CURRENT\<newline>''"
    by (simp add: answers_def)
  have b: "strip ''CONTINUE_CURRENT\<newline>'' = ''CONTINUE_CURRENT''" by code_simp
  have c: "current_agent_awaiting_parameters ?s = Some ''learning_path_agent''" by simp
  have d: "\<not> is_abandonment (analyze_context ?s)" by code_simp
  have e: "check_role_permission ''learning_path_agent'' (user_role ?s)" by code_simp
  show ?thesis
    using classifier_output_handling
            [where routing_chain = "answers ''CONTINUE_CURRENT\<newline>''" and state = ?s
               and decision = "''CONTINUE_CURRENT\<newline>''" and H = "''learning_path_agent''"]
          a b c d e
    by simp
qed

lemma continue_without_awaiting:
  "route (answers ''CONTINUE_CURRENT'') ((initial_state ''u1'' ''Consultant'')\<lparr>user_query := ''Python''\<rparr>)
     = Inr ''faq_fallback_agent''"
  by code_simp

section \<open>Extraction merges into the scratchpad\<close>

lemma map_of_update: "map_of (AList.update k v al) = (map_of al)(k \<mapsto> v)"
  by (rule update_conv')

lemma marker_step_merge:
  "map_of (fold (\<lambda>(i, word) sp.
             if P word
             then (if i + 1 < n then AList.update key (g i) sp else sp)
             else sp) xs sp0)
   = map_of sp0 ++ map_of (fold (\<lambda>(i, word) sp.
             if P word
             then (if i + 1 < n then AList.update key (g i) sp else sp)
             else sp) xs [])"
proof (induction xs arbitrary: sp0)
  case Nil
  then show ?case by simp
next
  case (Cons x xs)
  obtain i word where x: "x = (i, word)" by (cases x)
  let ?f = "(\<lambda>(i, word) sp.
             if P word
             then (if i + 1 < n then AList.update key (g i) sp else sp)
             else sp)"
  show ?case
  proof (cases "P word \<and> i + 1 < n")
    case True
    have "map_of (fold ?f (x # xs) sp0) = map_of (fold ?f xs (AList.update key (g i) sp0))"
      using True x by simp
    also have "\<dots> = map_of (AList.update key (g i) sp0) ++ map_of (fold ?f xs [])"
      by (rule Cons.IH)
    finally have l: "map_of (fold ?f (x # xs) sp0)
                     = (map_of sp0)(key \<mapsto> g i) ++ map_of (fold ?f xs [])"
      by (simp add: map_of_update)
    have "map_of (fold ?f (x # xs) []) = map_of (fold ?f xs (AList.update key (g i) []))"
      using True x by simp
    also have "\<dots> = map_of (AList.update key (g i) []) ++ map_of (fold ?f xs [])"
      by (rule Cons.IH)
    finally have r: "map_of (fold ?f (x # xs) []) = [key \<mapsto> g i] ++ map_of (fold ?f xs [])"
      by simp
    show ?thesis unfolding l r
      by (rule ext) (simp add: map_add_def split: option.splits)
  next
    case False
    then have step: "fold ?f (x # xs) sp = fold ?f xs sp" for sp
      using x by auto
    have "map_of (fold ?f (x # xs) sp0) = map_of (fold ?f xs sp0)"
      by (simp only: step)
    also have "\<dots> = map_of sp0 ++ map_of (fold ?f xs [])"
      by (rule Cons.IH)
    also have "map_of (fold ?f xs []) = map_of (fold ?f (x # xs) [])"
      by (simp only: step)
    finally show ?thesis .
  qed
qed

lemma title_after_marker_merge:
  "map_of (title_after_marker words sp) = map_of sp ++ map_of (title_after_marker words [])"
  unfolding title_after_marker_def by (rule marker_step_merge)

lemma merge_compose:
  assumes f: "\<And>sp. map_of (f sp) = map_of sp ++ map_of (f [])"
    and g: "\<And>sp. map_of (g sp) = map_of sp ++ map_of (g [])"
  shows "map_of (g (f sp)) = map_of sp ++ map_of (g (f []))"
proof -
  have "map_of (g (f sp)) = (map_of sp ++ map_of (f [])) ++ map_of (g [])"
    using f [of sp] g [of "f sp"] by simp
  moreover have "map_of (g (f [])) = map_of (f []) ++ map_of (g [])"
    using g [of "f []"] by simp
  ultimately show ?thesis by simp
qed

lemma AssignmentReviewAgent_extract_merge:
  "map_of (sub_agent_scratchpad (AssignmentReviewAgent_extract_parameters state))
   = map_of (sub_agent_scratchpad state)
     ++ map_of (sub_agent_scratchpad
                  (AssignmentReviewAgent_extract_parameters (state\<lparr>sub_agent_scratchpad := []\<rparr>)))"
  using title_after_marker_merge [of "split (user_query state)" "sub_agent_scratchpad state"]
  by (simp add: AssignmentReviewAgent_extract_parameters_def Let_def map_of_update)

lemma learning_extract_topic_merge:
  "map_of (learning_extract_topic q sp) = map_of sp ++ map_of (learning_extract_topic q [])"
  unfolding learning_extract_topic_def Let_def
  by (cases "first_topic learning_topics q") (simp_all add: map_of_update)

lemma learning_extract_skill_level_merge:
  "map_of (learning_extract_skill_level q sp)
     = map_of sp ++ map_of (learning_extract_skill_level q [])"
  unfolding learning_extract_skill_level_def by (simp add: map_of_update)

lemma LearningPathAgent_extract_merge:
  "map_of (sub_agent_scratchpad (LearningPathAgent_extract_parameters state))
   = map_of (sub_agent_scratchpad state)
     ++ map_of (sub_agent_scratchpad
                  (LearningPathAgent_extract_parameters (state\<lparr>sub_agent_scratchpad := []\<rparr>)))"
  using merge_compose [of "learning_extract_topic (lower (user_query state))"
          "learning_extract_skill_level (lower (user_query state))" "sub_agent_scratchpad state",
          OF learning_extract_topic_merge learning_extract_skill_level_merge]
  by (simp add: LearningPathAgent_extract_parameters_def Let_def)

lemma question_extract_topic_merge:
  "map_of (question_extract_topic q sp) = map_of sp ++ map_of (question_extract_topic q [])"
  unfolding question_extract_topic_def
  by (cases "first_topic question_topics q") (simp_all add: map_of_update)

lemma question_extract_difficulty_merge:
  "map_of (question_extract_difficulty q sp)
     = map_of sp ++ map_of (question_extract_difficulty q [])"
  unfolding question_extract_difficulty_def by (simp add: map_of_update)

lemma question_extract_count_merge:
  "map_of (question_extract_count q sp) = map_of sp ++ map_of (question_extract_count q [])"
  unfolding question_extract_count_def
  by (cases "first_number q") (simp_all add: map_of_update)

lemma QuestionGenerationAgent_extract_merge:
  "map_of (sub_agent_scratchpad (QuestionGenerationAgent_extract_parameters state))
   = map_of (sub_agent_scratchpad state)
     ++ map_of (sub_agent_scratchpad
                  (QuestionGenerationAgent_extract_parameters (state\<lparr>sub_agent_scratchpad := []\<rparr>)))"
proof -
  let ?q = "lower (user_query state)"
  have gf: "map_of (question_extract_difficulty ?q (question_extract_topic ?q sp))
            = map_of sp ++ map_of (question_extract_difficulty ?q (question_extract_topic ?q []))"
    for sp
    by (rule merge_compose [OF question_extract_topic_merge question_extract_difficulty_merge])
  have "map_of (question_extract_count ?q
                  (question_extract_difficulty ?q
                     (question_extract_topic ?q (sub_agent_scratchpad state))))
        = map_of (sub_agent_scratchpad state)
          ++ map_of (question_extract_count ?q
                       (question_extract_difficulty ?q (question_extract_topic ?q [])))"
    by (rule merge_compose
          [of "\<lambda>sp. question_extract_difficulty ?q (question_extract_topic ?q sp)"
              "question_extract_count ?q", OF gf question_extract_count_merge])
  then show ?thesis
    by (simp add: QuestionGenerationAgent_extract_parameters_def Let_def)
qed

text \<open>
  Claim C7. Extraction only adds or overwrites slots. For the extractors of the three
  handlers, every starting state and utterances \<open>u1\<close> then \<open>u2\<close>: a slot present after
  extracting \<open>u1\<close> is present after extracting \<open>u2\<close>; if \<open>u2\<close> holds nothing that the
  extractor recognises for the slot (extracting \<open>u2\<close> into an empty scratchpad does not set
  it), the slot keeps its value; and the scratchpad after \<open>u2\<close> is the scratchpad after
  \<open>u1\<close> overridden by what \<open>u2\<close> alone yields.
\<close>

theorem extract_never_removes:
  assumes "extract1 \<in> {AssignmentReviewAgent_extract_parameters,
                        LearningPathAgent_extract_parameters,
                        QuestionGenerationAgent_extract_parameters}"
    and "extract2 \<in> {AssignmentReviewAgent_extract_parameters,
                      LearningPathAgent_extract_parameters,
                      QuestionGenerationAgent_extract_parameters}"
  shows "(let state1 = extract1 (state\<lparr>user_query := u1\<rparr>);
              state2 = extract2 (state1\<lparr>user_query := u2\<rparr>);
              recognised = sub_agent_scratchpad
                             (extract2 (state1\<lparr>user_query := u2, sub_agent_scratchpad := []\<rparr>))
          in (map_of (sub_agent_scratchpad state1) slot \<noteq> None
                \<longrightarrow> map_of (sub_agent_scratchpad state2) slot \<noteq> None)
           \<and> (map_of recognised slot = None
                \<longrightarrow> map_of (sub_agent_scratchpad state2) slot
                    = map_of (sub_agent_scratchpad state1) slot)
           \<and> map_of (sub_agent_scratchpad state2)
               = map_of (sub_agent_scratchpad state1) ++ map_of recognised)"
proof -
  have m: "map_of (sub_agent_scratchpad (extract2 s))
           = map_of (sub_agent_scratchpad s)
             ++ map_of (sub_agent_scratchpad (extract2 (s\<lparr>sub_agent_scratchpad := []\<rparr>)))" for s
    using assms(2) AssignmentReviewAgent_extract_merge LearningPathAgent_extract_merge
          QuestionGenerationAgent_extract_merge
    by auto
  let ?s1 = "extract1 (state\<lparr>user_query := u1\<rparr>)"
  let ?s2 = "extract2 (?s1\<lparr>user_query := u2\<rparr>)"
  let ?r = "sub_agent_scratchpad (extract2 (?s1\<lparr>user_query := u2, sub_agent_scratchpad := []\<rparr>))"
  have e: "map_of (sub_agent_scratchpad ?s2) = map_of (sub_agent_scratchpad ?s1) ++ map_of ?r"
    using m [of "?s1\<lparr>user_query := u2\<rparr>"] by simp
  have 1: "map_of (sub_agent_scratchpad ?s2) slot \<noteq> None"
    if "map_of (sub_agent_scratchpad ?s1) slot \<noteq> None"
    using that unfolding e by (simp add: map_add_def split: option.splits)
  have 2: "map_of (sub_agent_scratchpad ?s2) slot = map_of (sub_agent_scratchpad ?s1) slot"
    if "map_of ?r slot = None"
    using that unfolding e by (simp add: map_add_def)
  show ?thesis
    unfolding Let_def using 1 2 e by blast
qed

theorem extract_never_removes_witness:
  "LearningPathAgent_extract_parameters
     \<in> {AssignmentReviewAgent_extract_parameters, LearningPathAgent_extract_parameters,
        QuestionGenerationAgent_extract_parameters}
   \<and> map_of (sub_agent_scratchpad
        (LearningPathAgent_extract_parameters
           ((initial_state ''u1'' ''Consultant'')\<lparr>user_query := ''I want to learn Python''\<rparr>)))
        ''topic'' = Some (PStr ''Python'')
   \<and> map_of (sub_agent_scratchpad
        (LearningPathAgent_extract_parameters
           ((LearningPathAgent_extract_parameters
              ((initial_state ''u1'' ''Consultant'')\<lparr>user_query := ''I want to learn Python''\<rparr>))
            \<lparr>user_query := ''I am a beginner'', sub_agent_scratchpad := []\<rparr>)))
        ''topic'' = None
   \<and> map_of (sub_agent_scratchpad
        (LearningPathAgent_extract_parameters
           ((LearningPathAgent_extract_parameters
              ((initial_state ''u1'' ''Consultant'')\<lparr>user_query := ''I want to learn Python''\<rparr>))
            \<lparr>user_query := ''I am a beginner''\<rparr>)))
        ''topic'' = Some (PStr ''Python'')"
proof -
  let ?E = LearningPathAgent_extract_parameters
  let ?s = "initial_state ''u1'' ''Consultant''"
  have a: "?E \<in> {AssignmentReviewAgent_extract_parameters, LearningPathAgent_extract_parameters,
                    QuestionGenerationAgent_extract_parameters}"
    by simp
  have b: "map_of (sub_agent_scratchpad (?E (?s\<lparr>user_query := ''I want to learn Python''\<rparr>)))
             ''topic'' = Some (PStr ''Python'')"
    by code_simp
  have c: "map_of (sub_agent_scratchpad
             (?E ((?E (?s\<lparr>user_query := ''I want to learn Python''\<rparr>))
                  \<lparr>user_query := ''I am a beginner'', sub_agent_scratchpad := []\<rparr>)))
             ''topic'' = None"
    by code_simp
  note t = extract_never_removes
            [OF a a, where state = ?s and ?u1.0 = "''I want to learn Python''"
               and ?u2.0 = "''I am a beginner''" and slot = "''topic''", unfolded Let_def]
  from t c have d: "map_of (sub_agent_scratchpad
             (?E ((?E (?s\<lparr>user_query := ''I want to learn Python''\<rparr>))
                  \<lparr>user_query := ''I am a beginner''\<rparr>))) ''topic''
           = map_of (sub_agent_scratchpad (?E (?s\<lparr>user_query := ''I want to learn Python''\<rparr>)))
               ''topic''"
    by blast
  show ?thesis
    using a b c d by (intro conjI) simp_all
qed

section \<open>Validation\<close>

lemma registry_parameters:
  "map_option parameters (get_agent_info ''assignment_review_agent'')
     = Some [''assignment_id'', ''assignment_title'']"
  "map_option parameters (get_agent_info ''learning_path_agent'') = Some [''topic'', ''skill_level'']"
  "map_option parameters (get_agent_info ''question_generation_agent'')
     = Some [''topic'', ''difficulty'', ''question_count'']"
  "map_option parameters (get_agent_info ''faq_fallback_agent'') = Some []"
  by (simp_all add: get_agent_info_def AGENTS_def)

text \<open>
  Claim C3, as stated, fails for \<open>assignment_review_agent\<close>, whose registry parameters
  are \<open>assignment_id\<close> and \<open>assignment_title\<close>. With only \<open>assignment_title\<close> in the
  scratchpad, fewer than two parameters are satisfied, yet validation is complete with
  nothing missing; and with an empty scratchpad the missing list is the single entry
  \<open>assignment_id or assignment_title\<close>, not the two parameter names.
\<close>

theorem validate_assignment_counterexample:
  "map_option parameters (get_agent_info ''assignment_review_agent'')
     = Some [''assignment_id'', ''assignment_title'']
   \<and> \<not> slot_truthy [(''assignment_title'', PStr ''Python Basics'')] ''assignment_id''
   \<and> slot_truthy [(''assignment_title'', PStr ''Python Basics'')] ''assignment_title''
   \<and> AssignmentReviewAgent_validate_parameters
        ((initial_state ''u1'' ''Consultant'')
           \<lparr>sub_agent_scratchpad := [(''assignment_title'', PStr ''Python Basics'')]\<rparr>)
       = \<lparr>complete = True, missing = [], clarification = None\<rparr>
   \<and> missing (AssignmentReviewAgent_validate_parameters (initial_state ''u1'' ''Consultant''))
       = [''assignment_id or assignment_title'']"
  by (simp add: registry_parameters AssignmentReviewAgent_validate_parameters_def slot_truthy_def
        initial_state_def)

text \<open>
  Claim C3, amended. For \<open>learning_path_agent\<close>, with registry parameters \<open>topic\<close> and
  \<open>skill_level\<close>, validation lists as missing exactly the parameters that are not present
  and truthy in the scratchpad, in registry order, and is complete exactly when there are
  none. For \<open>assignment_review_agent\<close>, validation is complete exactly when at least one of
  \<open>assignment_id\<close> and \<open>assignment_title\<close> is present and truthy, and otherwise the missing
  list is the single entry \<open>assignment_id or assignment_title\<close>.
\<close>

theorem validate_missing_parameters:
  "(let v = LearningPathAgent_validate_parameters state;
        scratchpad = sub_agent_scratchpad state
    in map_option parameters (get_agent_info ''learning_path_agent'') = Some [''topic'', ''skill_level'']
       \<and> missing v = filter (\<lambda>p. \<not> slot_truthy scratchpad p) [''topic'', ''skill_level'']
       \<and> complete v = (missing v = [])
       \<and> complete v = (slot_truthy scratchpad ''topic'' \<and> slot_truthy scratchpad ''skill_level''))
   \<and> (let v = AssignmentReviewAgent_validate_parameters state;
            scratchpad = sub_agent_scratchpad state
        in complete v = (slot_truthy scratchpad ''assignment_id''
                           \<or> slot_truthy scratchpad ''assignment_title'')
           \<and> missing v = (if complete v then [] else [''assignment_id or assignment_title'']))"
  by (simp add: registry_parameters LearningPathAgent_validate_parameters_def
        AssignmentReviewAgent_validate_parameters_def Let_def)

theorem validate_missing_parameters_witness:
  "missing (LearningPathAgent_validate_parameters
      ((initial_state ''u1'' ''Consultant'')\<lparr>sub_agent_scratchpad := [(''topic'', PStr ''Python'')]\<rparr>))
     = [''skill_level'']
   \<and> \<not> complete (LearningPathAgent_validate_parameters
      ((initial_state ''u1'' ''Consultant'')\<lparr>sub_agent_scratchpad := [(''topic'', PStr ''Python'')]\<rparr>))
   \<and> \<not> complete (AssignmentReviewAgent_validate_parameters
      ((initial_state ''u1'' ''Consultant'')\<lparr>sub_agent_scratchpad := [(''topic'', PStr ''Python'')]\<rparr>))"
  using validate_missing_parameters
          [of "(initial_state ''u1'' ''Consultant'')\<lparr>sub_agent_scratchpad := [(''topic'', PStr ''Python'')]\<rparr>"]
  by (simp add: Let_def slot_truthy_def)

subsection \<open>The default question count\<close>

lemma clarification_difficulty:
  "strip (''To generate questions, I need:\<newline>'' @ [] @ ''- What difficulty level? (Easy/Medium/Hard)\<newline>'')
     = ''To generate questions, I need:\<newline>- What difficulty level? (Easy/Medium/Hard)''"
  by code_simp

lemma generate_5_python_questions_extracted:
  "sub_agent_scratchpad
     (QuestionGenerationAgent_extract_parameters
        ((initial_state uid ''Admin'')\<lparr>user_query := ''Generate 5 Python questions''\<rparr>))
   = [(''topic'', PStr ''Python''), (''question_count'', PInt 5)]"
proof -
  have q: "lower ''Generate 5 Python questions'' = ''generate 5 python questions''"
    by code_simp
  have t: "question_extract_topic ''generate 5 python questions'' [] = [(''topic'', PStr ''Python'')]"
    by code_simp
  have d: "question_extract_difficulty ''generate 5 python questions'' [(''topic'', PStr ''Python'')]
            = [(''topic'', PStr ''Python'')]"
    by code_simp
  have c: "question_extract_count ''generate 5 python questions'' [(''topic'', PStr ''Python'')]
            = [(''topic'', PStr ''Python''), (''question_count'', PInt 5)]"
    by code_simp
  show ?thesis
    by (simp add: QuestionGenerationAgent_extract_parameters_def Let_def initial_state_def q t d c)
qed

text \<open>
  Claim C8. Validation of the question-generation handler never reports
  \<open>question_count\<close> as missing: a count that is unset (or falsy) is replaced by the
  default 5 in the scratchpad, and a count that is set is left alone. For an Admin and the
  utterance \<open>Generate 5 Python questions\<close> on a fresh state, extraction yields topic
  \<open>Python\<close> and count 5, the only missing parameter is \<open>difficulty\<close>, and the turn's
  response is the clarification that asks for the difficulty only, whatever the generation
  capability does.
\<close>

theorem question_count_default:
  "(let (v, state') = QuestionGenerationAgent_validate_parameters state
    in ''question_count'' \<notin> set (missing v)
       \<and> slot_truthy (sub_agent_scratchpad state') ''question_count''
       \<and> (\<not> slot_truthy (sub_agent_scratchpad state) ''question_count''
            \<longrightarrow> map_of (sub_agent_scratchpad state') ''question_count'' = Some (PInt 5))
       \<and> (slot_truthy (sub_agent_scratchpad state) ''question_count''
            \<longrightarrow> state' = state))
   \<and> sub_agent_scratchpad
       (QuestionGenerationAgent_extract_parameters
          ((initial_state uid ''Admin'')\<lparr>user_query := ''Generate 5 Python questions''\<rparr>))
     = [(''topic'', PStr ''Python''), (''question_count'', PInt 5)]
   \<and> missing (fst (QuestionGenerationAgent_validate_parameters
         (QuestionGenerationAgent_extract_parameters
            ((initial_state uid ''Admin'')\<lparr>user_query := ''Generate 5 Python questions''\<rparr>))))
     = [''difficulty'']
   \<and> question_generation_node llm
        ((initial_state uid ''Admin'')\<lparr>user_query := ''Generate 5 Python questions''\<rparr>)
     = Inr ((initial_state uid ''Admin'')
              \<lparr>user_query := ''Generate 5 Python questions'',
               sub_agent_scratchpad := [(''topic'', PStr ''Python''), (''question_count'', PInt 5)],
               system_response :=
                 ''To generate questions, I need:\<newline>- What difficulty level? (Easy/Medium/Hard)'',
               current_agent_awaiting_parameters := Some ''question_generation_agent''\<rparr>)"
proof -
  let ?s = "(initial_state uid ''Admin'')\<lparr>user_query := ''Generate 5 Python questions''\<rparr>"
  let ?sp = "[(''topic'', PStr ''Python''), (''question_count'', PInt 5)]"
  have 1: "(let (v, state') = QuestionGenerationAgent_validate_parameters state
    in ''question_count'' \<notin> set (missing v)
       \<and> slot_truthy (sub_agent_scratchpad state') ''question_count''
       \<and> (\<not> slot_truthy (sub_agent_scratchpad state) ''question_count''
            \<longrightarrow> map_of (sub_agent_scratchpad state') ''question_count'' = Some (PInt 5))
       \<and> (slot_truthy (sub_agent_scratchpad state) ''question_count''
            \<longrightarrow> state' = state))"
    by (simp add: QuestionGenerationAgent_validate_parameters_def Let_def slot_truthy_def
          update_conv')
  have e: "QuestionGenerationAgent_extract_parameters ?s = ?s\<lparr>sub_agent_scratchpad := ?sp\<rparr>"
    using generate_5_python_questions_extracted [of uid]
    by (simp add: QuestionGenerationAgent_extract_parameters_def Let_def)
  have v: "QuestionGenerationAgent_validate_parameters (?s\<lparr>sub_agent_scratchpad := ?sp\<rparr>)
           = (\<lparr>complete = False, missing = [''difficulty''],
               clarification =
                 Some ''To generate questions, I need:\<newline>- What difficulty level? (Easy/Medium/Hard)''\<rparr>,
              ?s\<lparr>sub_agent_scratchpad := ?sp\<rparr>)"
    using clarification_difficulty
    by (simp add: QuestionGenerationAgent_validate_parameters_def Let_def slot_truthy_def)
  have 2: "sub_agent_scratchpad (QuestionGenerationAgent_extract_parameters ?s) = ?sp"
    by (rule generate_5_python_questions_extracted)
  have 3: "missing (fst (QuestionGenerationAgent_validate_parameters
                           (QuestionGenerationAgent_extract_parameters ?s))) = [''difficulty'']"
    by (simp only: e v fst_conv validation.simps)
  have 4: "question_generation_node llm ?s
           = Inr (?s\<lparr>sub_agent_scratchpad := ?sp,
                     system_response :=
                       ''To generate questions, I need:\<newline>- What difficulty level? (Easy/Medium/Hard)'',
                     current_agent_awaiting_parameters := Some ''question_generation_agent''\<rparr>)"
    unfolding question_generation_node_def Let_def e v
    by (simp add: QuestionGenerationAgent_check_permissions_def initial_state_def)
  show ?thesis using 1 2 3 4 by simp
qed

theorem question_count_default_witness:
  "\<not> slot_truthy (sub_agent_scratchpad (initial_state ''u1'' ''Admin'')) ''question_count''
   \<and> map_of (sub_agent_scratchpad
        (snd (QuestionGenerationAgent_validate_parameters (initial_state ''u1'' ''Admin''))))
        ''question_count'' = Some (PInt 5)
   \<and> missing (fst (QuestionGenerationAgent_validate_parameters (initial_state ''u1'' ''Admin'')))
       = [''topic'', ''difficulty'']
   \<and> question_generation_node (unavailable ''generation unavailable'')
        ((initial_state ''u1'' ''Admin'')\<lparr>user_query := ''Generate 5 Python questions''\<rparr>)
     = Inr ((initial_state ''u1'' ''Admin'')
              \<lparr>user_query := ''Generate 5 Python questions'',
               sub_agent_scratchpad := [(''topic'', PStr ''Python''), (''question_count'', PInt 5)],
               system_response :=
                 ''To generate questions, I need:\<newline>- What difficulty level? (Easy/Medium/Hard)'',
               current_agent_awaiting_parameters := Some ''question_generation_agent''\<rparr>)"
proof -
  have a: "\<not> slot_truthy (sub_agent_scratchpad (initial_state ''u1'' ''Admin'')) ''question_count''"
    by (simp add: initial_state_def slot_truthy_def)
  have m: "missing (fst (QuestionGenerationAgent_validate_parameters (initial_state ''u1'' ''Admin'')))
       = [''topic'', ''difficulty'']"
    by (simp add: QuestionGenerationAgent_validate_parameters_def Let_def initial_state_def
          slot_truthy_def)
  note t = question_count_default
             [of "initial_state ''u1'' ''Admin''" "''u1''" "unavailable ''generation unavailable''"]
  from t a have b: "map_of (sub_agent_scratchpad
        (snd (QuestionGenerationAgent_validate_parameters (initial_state ''u1'' ''Admin''))))
        ''question_count'' = Some (PInt 5)"
    by (simp add: case_prod_beta Let_def)
  from t have c: "question_generation_node (unavailable ''generation unavailable'')
        ((initial_state ''u1'' ''Admin'')\<lparr>user_query := ''Generate 5 Python questions''\<rparr>)
     = Inr ((initial_state ''u1'' ''Admin'')
              \<lparr>user_query := ''Generate 5 Python questions'',
               sub_agent_scratchpad := [(''topic'', PStr ''Python''), (''question_count'', PInt 5)],
               system_response :=
                 ''To generate questions, I need:\<newline>- What difficulty level? (Easy/Medium/Hard)'',
               current_agent_awaiting_parameters := Some ''question_generation_agent''\<rparr>)"
    by blast
  show ?thesis using a b m c by blast
qed

section \<open>The fallback handler\<close>

lemma faq_answers_nonempty: "(key, answer) \<in> set faq_db \<Longrightarrow> answer \<noteq> []"
  unfolding faq_db_def by auto

lemma search_faq_nonempty:
  assumes "search_faq query = Some a"
  shows "a \<noteq> []"
proof -
  from assms obtain entry where
    f: "List.find (\<lambda>(key, answer). list_ex (\<lambda>word. str_in word (lower query)) (split key)) faq_db
          = Some entry"
    and a: "a = snd entry"
    by (auto simp: search_faq_def Let_def)
  from f obtain i where "i < length faq_db" and "faq_db ! i = entry"
    unfolding find_Some_iff by blast
  then have "entry \<in> set faq_db"
    using nth_mem by force
  then show ?thesis using a faq_answers_nonempty [of "fst entry" "snd entry"] by simp
qed

lemma FAQFallbackAgent_generate_response_cases:
  "FAQFallbackAgent_generate_response llm state =
     (if handle_greeting (user_query state) then Inr greeting_text
      else if handle_thanks (user_query state) then Inr thanks_text
      else case search_faq (user_query state) of
             Some a \<Rightarrow> Inr a
           | None \<Rightarrow> llm (FallbackPrompt (user_query state)))"
  using search_faq_nonempty [of "user_query state"]
  by (simp add: FAQFallbackAgent_generate_response_def Let_def split: option.splits)

text \<open>
  Claim C9. The fallback handler answers in three tiers, in this order: a greeting is
  answered with the fixed greeting text and, failing that, thanks with the fixed thanks
  text; failing both, a hit in the FAQ table is answered with the table's text; only when
  all three fail is the generation capability invoked. In the first two tiers and on a
  table hit the answer does not depend on the capability at all. Whenever the node
  returns, \<open>current_agent_awaiting_parameters\<close> is \<open>None\<close> and the scratchpad is empty; it
  fails to return only when the third tier's generation call raises.
\<close>

theorem faq_three_tier_cascade:
  "(handle_greeting (user_query state)
      \<longrightarrow> FAQFallbackAgent_generate_response llm state = Inr greeting_text)
   \<and> (\<not> handle_greeting (user_query state) \<and> handle_thanks (user_query state)
      \<longrightarrow> FAQFallbackAgent_generate_response llm state = Inr thanks_text)
   \<and> (\<not> handle_greeting (user_query state) \<and> \<not> handle_thanks (user_query state)
        \<and> search_faq (user_query state) = Some a
      \<longrightarrow> FAQFallbackAgent_generate_response llm state = Inr a)
   \<and> (\<not> handle_greeting (user_query state) \<and> \<not> handle_thanks (user_query state)
        \<and> search_faq (user_query state) = None
      \<longrightarrow> FAQFallbackAgent_generate_response llm state = llm (FallbackPrompt (user_query state)))
   \<and> (handle_greeting (user_query state) \<or> handle_thanks (user_query state)
        \<or> search_faq (user_query state) \<noteq> None
      \<longrightarrow> FAQFallbackAgent_generate_response llm state
          = FAQFallbackAgent_generate_response other_llm state)
   \<and> (case faq_fallback_node llm state of
         Inr state' \<Rightarrow>
           current_agent_awaiting_parameters state' = None
           \<and> sub_agent_scratchpad state' = []
           \<and> FAQFallbackAgent_generate_response llm state = Inr (system_response state')
       | Inl (e, state') \<Rightarrow>
           \<not> handle_greeting (user_query state) \<and> \<not> handle_thanks (user_query state)
           \<and> search_faq (user_query state) = None
           \<and> llm (FallbackPrompt (user_query state)) = Inl e \<and> state' = state)"
proof -
  have node: "(case faq_fallback_node llm state of
         Inr state' \<Rightarrow>
           current_agent_awaiting_parameters state' = None
           \<and> sub_agent_scratchpad state' = []
           \<and> FAQFallbackAgent_generate_response llm state = Inr (system_response state')
       | Inl (e, state') \<Rightarrow>
           \<not> handle_greeting (user_query state) \<and> \<not> handle_thanks (user_query state)
           \<and> search_faq (user_query state) = None
           \<and> llm (FallbackPrompt (user_query state)) = Inl e \<and> state' = state)"
  proof (cases "FAQFallbackAgent_generate_response llm state")
    case (Inl e)
    then have "\<not> handle_greeting (user_query state) \<and> \<not> handle_thanks (user_query state)
           \<and> search_faq (user_query state) = None
           \<and> llm (FallbackPrompt (user_query state)) = Inl e"
      unfolding FAQFallbackAgent_generate_response_cases
      by (auto split: if_splits option.splits)
    then show ?thesis using Inl by (simp add: faq_fallback_node_def)
  next
    case (Inr reply)
    then show ?thesis by (simp add: faq_fallback_node_def)
  qed
  show ?thesis
    using node by (auto simp: FAQFallbackAgent_generate_response_cases)
qed

theorem faq_three_tier_cascade_witness:
  "handle_greeting (user_query ((initial_state ''u1'' ''SME'')\<lparr>user_query := ''Hello!''\<rparr>))
   \<and> FAQFallbackAgent_generate_response (unavailable ''generation unavailable'')
        ((initial_state ''u1'' ''SME'')\<lparr>user_query := ''Hello!''\<rparr>) = Inr greeting_text
   \<and> faq_fallback_node (unavailable ''generation unavailable'')
        ((initial_state ''u1'' ''SME'')\<lparr>user_query := ''Hello!''\<rparr>)
      = Inr ((initial_state ''u1'' ''SME'')\<lparr>user_query := ''Hello!'', system_response := greeting_text\<rparr>)"
proof -
  let ?s = "(initial_state ''u1'' ''SME'')\<lparr>user_query := ''Hello!''\<rparr>"
  have g: "handle_greeting (user_query ?s)" by code_simp
  from g faq_three_tier_cascade [of ?s "unavailable ''generation unavailable''"]
  have r: "FAQFallbackAgent_generate_response (unavailable ''generation unavailable'') ?s
           = Inr greeting_text"
    by blast
  then have n: "faq_fallback_node (unavailable ''generation unavailable'') ?s
      = Inr (?s\<lparr>system_response := greeting_text\<rparr>)"
    by (simp add: faq_fallback_node_def initial_state_def)
  show ?thesis using g r n by simp
qed

lemma faq_tiers_examples:
  "FAQFallbackAgent_generate_response (unavailable ''generation unavailable'')
     ((initial_state ''u1'' ''SME'')\<lparr>user_query := ''Thank you!''\<rparr>) = Inr thanks_text"
  "FAQFallbackAgent_generate_response (unavailable ''generation unavailable'')
     ((initial_state ''u1'' ''SME'')\<lparr>user_query := ''Where are my grades''\<rparr>)
   = Inr ''You can check your grades by going to the Assignments section and clicking on any completed assignment. Your grade and feedback will be displayed.''"
  "FAQFallbackAgent_generate_response (unavailable ''generation unavailable'')
     ((initial_state ''u1'' ''SME'')\<lparr>user_query := ''never mind''\<rparr>)
   = Inl (CapabilityError ''generation unavailable'')"
  by code_simp+

section \<open>Turns\<close>

lemma route_returns_node:
  assumes "route routing_chain state = Inr a"
  shows "a \<in> {''assignment_review_agent'', ''learning_path_agent'', ''question_generation_agent'',
              ''faq_fallback_agent''}"
proof -
  from route_result [OF assms] consider "a = ''faq_fallback_agent''"
    | "check_role_permission a (user_role state)" by blast
  then show ?thesis
  proof cases
    case 1
    then show ?thesis by simp
  next
    case 2
    then obtain entry where "get_agent_info a = Some entry"
      by (auto simp: check_role_permission_def split: option.splits)
    then show ?thesis by (rule get_agent_info_cases)
  qed
qed

lemma route_question_generation_admin:
  assumes "route routing_chain state = Inr ''question_generation_agent''"
  shows "user_role state = ''Admin''"
proof -
  from route_result [OF assms] have "check_role_permission ''question_generation_agent'' (user_role state)"
    by simp
  then show ?thesis
    by (simp add: check_role_permission_def get_agent_info_def AGENTS_def)
qed

lemma graph_invoke_fallback:
  assumes "route routing_chain state = Inr ''faq_fallback_agent''"
  shows "graph_invoke routing_chain llm state
         = (case faq_fallback_node llm (state\<lparr>current_agent := Some ''faq_fallback_agent''\<rparr>) of
              Inl (e, raised) \<Rightarrow>
                Inl (e, state\<lparr>sub_agent_scratchpad := sub_agent_scratchpad raised\<rparr>)
            | Inr result \<Rightarrow> Inr result)"
  using assms by (simp add: graph_invoke_def router_node_def route_to_agent_def)

lemma FAQFallbackAgent_generate_response_query:
  "user_query state' = user_query state \<Longrightarrow>
     FAQFallbackAgent_generate_response llm state' = FAQFallbackAgent_generate_response llm state"
  by (simp add: FAQFallbackAgent_generate_response_def)

lemma analyze_context_abandonment_query:
  "user_query state' = user_query state \<Longrightarrow>
     is_abandonment (analyze_context state') = is_abandonment (analyze_context state)"
  by (simp add: analyze_context_def)

text \<open>
  Claim C4. In a session with \<open>current_agent_awaiting_parameters\<close> set and an utterance
  that matches an abandonment phrase, \<open>route\<close> returns the fallback handler for every
  classifier, also one that raises: the classifier is not invoked. The turn then runs the
  fallback node: when its response is produced, the turn ends with the fallback handler
  as current agent, that response, \<open>current_agent_awaiting_parameters = None\<close> and an empty
  scratchpad; and no turn that returns ends otherwise.
\<close>

theorem abandonment_turn:
  assumes "current_agent_awaiting_parameters state \<noteq> None"
    and "is_abandonment (analyze_context state)"
  shows "route routing_chain state = Inr ''faq_fallback_agent''
       \<and> (\<forall>reply. FAQFallbackAgent_generate_response llm state = Inr reply
            \<longrightarrow> (\<exists>state'. process_message t_user t_system routing_chain llm state = Inr state'
                   \<and> current_agent state' = Some ''faq_fallback_agent''
                   \<and> system_response state' = reply
                   \<and> current_agent_awaiting_parameters state' = None
                   \<and> sub_agent_scratchpad state' = []))
       \<and> (\<forall>state'. process_message t_user t_system routing_chain llm state = Inr state'
            \<longrightarrow> current_agent_awaiting_parameters state' = None
                \<and> sub_agent_scratchpad state' = [])"
proof -
  let ?m = "\<lparr>role = ''user'', content = user_query state, timestamp = Some t_user\<rparr>"
  let ?s1 = "state\<lparr>conversation_history := conversation_history state @ [?m]\<rparr>"
  let ?s2 = "?s1\<lparr>current_agent := Some ''faq_fallback_agent''\<rparr>"
  have r: "route routing_chain state = Inr ''faq_fallback_agent''"
    using assms by (simp add: route_abandonment)
  have "is_abandonment (analyze_context ?s1)"
    using assms(2) analyze_context_abandonment_query [of ?s1 state] by simp
  then have r1: "route routing_chain ?s1 = Inr ''faq_fallback_agent''"
    using assms(1) by (simp add: route_abandonment)
  have g: "graph_invoke routing_chain llm ?s1
           = (case faq_fallback_node llm ?s2 of
                Inl (e, raised) \<Rightarrow>
                  Inl (e, ?s1\<lparr>sub_agent_scratchpad := sub_agent_scratchpad raised\<rparr>)
              | Inr result \<Rightarrow> Inr result)"
    using graph_invoke_fallback [OF r1] by simp
  have q: "FAQFallbackAgent_generate_response llm ?s2 = FAQFallbackAgent_generate_response llm state"
    by (rule FAQFallbackAgent_generate_response_query) simp
  have p: "process_message t_user t_system routing_chain llm state
           = (case faq_fallback_node llm ?s2 of
                Inl (e, raised) \<Rightarrow>
                  Inl (e, ?s1\<lparr>sub_agent_scratchpad := sub_agent_scratchpad raised\<rparr>)
              | Inr result \<Rightarrow>
                  Inr (result\<lparr>conversation_history := conversation_history result
                         @ [\<lparr>role = ''assistant'', content = system_response result,
                              timestamp = Some t_system\<rparr>]\<rparr>))"
    unfolding process_message_def Let_def g
    by (cases "faq_fallback_node llm ?s2") (simp_all add: case_prod_beta)
  have 2: "\<exists>state'. process_message t_user t_system routing_chain llm state = Inr state'
                   \<and> current_agent state' = Some ''faq_fallback_agent''
                   \<and> system_response state' = reply
                   \<and> current_agent_awaiting_parameters state' = None
                   \<and> sub_agent_scratchpad state' = []"
    if "FAQFallbackAgent_generate_response llm state = Inr reply" for reply
    unfolding p using that q by (simp add: faq_fallback_node_def)
  have 3: "current_agent_awaiting_parameters state' = None \<and> sub_agent_scratchpad state' = []"
    if "process_message t_user t_system routing_chain llm state = Inr state'" for state'
    using that unfolding p
    by (cases "FAQFallbackAgent_generate_response llm ?s2")
       (auto simp: faq_fallback_node_def)
  show ?thesis using r 2 3 by blast
qed

theorem abandonment_turn_witness:
  "current_agent_awaiting_parameters
     ((initial_state ''u1'' ''Consultant'')
        \<lparr>user_query := ''never mind'',
         current_agent_awaiting_parameters := Some ''learning_path_agent'',
         sub_agent_scratchpad := [(''topic'', PStr ''Python'')]\<rparr>) \<noteq> None
   \<and> is_abandonment (analyze_context
        ((initial_state ''u1'' ''Consultant'')
           \<lparr>user_query := ''never mind'',
            current_agent_awaiting_parameters := Some ''learning_path_agent'',
            sub_agent_scratchpad := [(''topic'', PStr ''Python'')]\<rparr>))
   \<and> route (unavailable ''classifier unavailable'')
        ((initial_state ''u1'' ''Consultant'')
           \<lparr>user_query := ''never mind'',
            current_agent_awaiting_parameters := Some ''learning_path_agent'',
            sub_agent_scratchpad := [(''topic'', PStr ''Python'')]\<rparr>)
       = Inr ''faq_fallback_agent''
   \<and> process_message ''t1'' ''t2'' (unavailable ''classifier unavailable'') (answers ''No problem.'')
        ((initial_state ''u1'' ''Consultant'')
           \<lparr>user_query := ''never mind'',
            current_agent_awaiting_parameters := Some ''learning_path_agent'',
            sub_agent_scratchpad := [(''topic'', PStr ''Python'')]\<rparr>)
       = Inr ((initial_state ''u1'' ''Consultant'')
               \<lparr>user_query := ''never mind'',
                conversation_history :=
                  [\<lparr>role = ''user'', content = ''never mind'', timestamp = Some ''t1''\<rparr>,
                   \<lparr>role = ''assistant'', content = ''No problem.'', timestamp = Some ''t2''\<rparr>],
                current_agent := Some ''faq_fallback_agent'',
                system_response := ''No problem.'',
                current_agent_awaiting_parameters := None,
                sub_agent_scratchpad := []\<rparr>)"
proof -
  let ?s = "(initial_state ''u1'' ''Consultant'')
        \<lparr>user_query := ''never mind'',
         current_agent_awaiting_parameters := Some ''learning_path_agent'',
         sub_agent_scratchpad := [(''topic'', PStr ''Python'')]\<rparr>"
  have a: "current_agent_awaiting_parameters ?s \<noteq> None" by simp
  have b: "is_abandonment (analyze_context ?s)" by code_simp
  have c: "FAQFallbackAgent_generate_response (answers ''No problem.'') ?s = Inr ''No problem.''"
    by code_simp
  note t = abandonment_turn [OF a b, of "unavailable ''classifier unavailable''"
             "answers ''No problem.''" "''t1''" "''t2''"]
  from t have r: "route (unavailable ''classifier unavailable'') ?s = Inr ''faq_fallback_agent''"
    by blast
  from t c obtain state' where
    p: "process_message ''t1'' ''t2'' (unavailable ''classifier unavailable'') (answers ''No problem.'') ?s
          = Inr state'"
    and f: "current_agent_awaiting_parameters state' = None" "sub_agent_scratchpad state' = []"
    by blast
  have e: "process_message ''t1'' ''t2'' (unavailable ''classifier unavailable'') (answers ''No problem.'') ?s
       = Inr ((initial_state ''u1'' ''Consultant'')
               \<lparr>user_query := ''never mind'',
                conversation_history :=
                  [\<lparr>role = ''user'', content = ''never mind'', timestamp = Some ''t1''\<rparr>,
                   \<lparr>role = ''assistant'', content = ''No problem.'', timestamp = Some ''t2''\<rparr>],
                current_agent := Some ''faq_fallback_agent'',
                system_response := ''No problem.'',
                current_agent_awaiting_parameters := None,
                sub_agent_scratchpad := []\<rparr>)"
    by code_simp
  show ?thesis using a b r e by blast
qed

subsection \<open>The outcome of a handler's turn\<close>

lemma merge_keeps_slot:
  assumes "m' = m ++ r" and "m slot \<noteq> None"
  shows "m' slot \<noteq> None"
  using assms by (auto simp: map_add_def split: option.splits)

lemma assignment_review_outcome:
  "(let state1 = AssignmentReviewAgent_extract_parameters state;
        v = AssignmentReviewAgent_validate_parameters state1
    in if complete v
       then (\<forall>reply. AssignmentReviewAgent_generate_response llm state1 = Inr reply
               \<longrightarrow> assignment_review_node llm state
                   = Inr (state1\<lparr>system_response := reply,
                                 current_agent_awaiting_parameters := None,
                                 sub_agent_scratchpad := []\<rparr>))
       else (\<exists>c. clarification v = Some c
               \<and> assignment_review_node llm state
                   = Inr (state1\<lparr>system_response := c,
                                 current_agent_awaiting_parameters := Some ''assignment_review_agent''\<rparr>)
               \<and> (\<forall>slot. map_of (sub_agent_scratchpad state) slot \<noteq> None
                      \<longrightarrow> map_of (sub_agent_scratchpad state1) slot \<noteq> None)))"
proof -
  let ?s1 = "AssignmentReviewAgent_extract_parameters state"
  let ?v = "AssignmentReviewAgent_validate_parameters ?s1"
  have k: "map_of (sub_agent_scratchpad ?s1) slot \<noteq> None"
    if "map_of (sub_agent_scratchpad state) slot \<noteq> None" for slot
    using AssignmentReviewAgent_extract_merge [of state] that by (rule merge_keeps_slot)
  have c: "clarification ?v \<noteq> None" if "\<not> complete ?v"
    using that by (simp add: AssignmentReviewAgent_validate_parameters_def Let_def split: if_splits)
  show ?thesis
  proof (cases "complete ?v")
    case True
    then show ?thesis by (simp add: assignment_review_node_def Let_def)
  next
    case False
    with c obtain txt' where "clarification ?v = Some txt'" by blast
    with False k show ?thesis by (simp add: assignment_review_node_def Let_def)
  qed
qed

lemma learning_path_outcome:
  "(let state1 = LearningPathAgent_extract_parameters state;
        v = LearningPathAgent_validate_parameters state1
    in if complete v
       then (\<forall>reply. LearningPathAgent_generate_response llm state1 = Inr reply
               \<longrightarrow> learning_path_node llm state
                   = Inr (state1\<lparr>system_response := reply,
                                 current_agent_awaiting_parameters := None,
                                 sub_agent_scratchpad := []\<rparr>))
       else (\<exists>c. clarification v = Some c
               \<and> learning_path_node llm state
                   = Inr (state1\<lparr>system_response := c,
                                 current_agent_awaiting_parameters := Some ''learning_path_agent''\<rparr>)
               \<and> (\<forall>slot. map_of (sub_agent_scratchpad state) slot \<noteq> None
                      \<longrightarrow> map_of (sub_agent_scratchpad state1) slot \<noteq> None)))"
proof -
  let ?s1 = "LearningPathAgent_extract_parameters state"
  let ?v = "LearningPathAgent_validate_parameters ?s1"
  have k: "map_of (sub_agent_scratchpad ?s1) slot \<noteq> None"
    if "map_of (sub_agent_scratchpad state) slot \<noteq> None" for slot
    using LearningPathAgent_extract_merge [of state] that by (rule merge_keeps_slot)
  have c: "clarification ?v \<noteq> None" if "\<not> complete ?v"
    using that by (simp add: LearningPathAgent_validate_parameters_def Let_def split: if_splits)
  show ?thesis
  proof (cases "complete ?v")
    case True
    then show ?thesis by (simp add: learning_path_node_def Let_def)
  next
    case False
    with c obtain txt' where "clarification ?v = Some txt'" by blast
    with False k show ?thesis by (simp add: learning_path_node_def Let_def)
  qed
qed

lemma question_validate_keeps_slot:
  assumes "map_of (sub_agent_scratchpad state) slot \<noteq> None"
  shows "map_of (sub_agent_scratchpad (snd (QuestionGenerationAgent_validate_parameters state))) slot
           \<noteq> None"
  using assms
  by (simp add: QuestionGenerationAgent_validate_parameters_def Let_def map_of_update)

lemma question_validate_clarification:
  assumes "\<not> complete (fst (QuestionGenerationAgent_validate_parameters state))"
  shows "clarification (fst (QuestionGenerationAgent_validate_parameters state)) \<noteq> None"
  using assms
  by (simp add: QuestionGenerationAgent_validate_parameters_def Let_def split: if_splits)

lemma question_generation_outcome:
  assumes "user_role state = ''Admin''"
  shows "(let state1 = QuestionGenerationAgent_extract_parameters state;
              (v, state2) = QuestionGenerationAgent_validate_parameters state1
          in if complete v
             then (\<forall>reply. QuestionGenerationAgent_generate_response llm state2 = Inr reply
                     \<longrightarrow> question_generation_node llm state
                         = Inr (state2\<lparr>system_response := reply,
                                       current_agent_awaiting_parameters := None,
                                       sub_agent_scratchpad := []\<rparr>))
             else (\<exists>c. clarification v = Some c
                     \<and> question_generation_node llm state
                         = Inr (state2\<lparr>system_response := c,
                                       current_agent_awaiting_parameters :=
                                         Some ''question_generation_agent''\<rparr>)
                     \<and> (\<forall>slot. map_of (sub_agent_scratchpad state) slot \<noteq> None
                            \<longrightarrow> map_of (sub_agent_scratchpad state2) slot \<noteq> None)))"
proof -
  let ?s1 = "QuestionGenerationAgent_extract_parameters state"
  obtain v state2 where vs: "QuestionGenerationAgent_validate_parameters ?s1 = (v, state2)"
    by (cases "QuestionGenerationAgent_validate_parameters ?s1")
  have p: "QuestionGenerationAgent_check_permissions state"
    using assms by (simp add: QuestionGenerationAgent_check_permissions_def)
  have k1: "map_of (sub_agent_scratchpad ?s1) slot \<noteq> None"
    if "map_of (sub_agent_scratchpad state) slot \<noteq> None" for slot
    using QuestionGenerationAgent_extract_merge [of state] that by (rule merge_keeps_slot)
  have k: "map_of (sub_agent_scratchpad state2) slot \<noteq> None"
    if "map_of (sub_agent_scratchpad state) slot \<noteq> None" for slot
    using question_validate_keeps_slot [OF k1 [OF that]] vs by simp
  have c: "clarification v \<noteq> None" if "\<not> complete v"
    using question_validate_clarification [of ?s1] that vs by simp
  show ?thesis
  proof (cases "complete v")
    case True
    then show ?thesis using p vs by (simp add: question_generation_node_def Let_def)
  next
    case False
    with c obtain txt' where "clarification v = Some txt'" by blast
    with False k p vs show ?thesis by (simp add: question_generation_node_def Let_def)
  qed
qed

text \<open>
  Claim C5. The outcome of a turn of each of the three handlers, on the state after
  extraction and validation. If validation is incomplete, the node returns with the
  clarification text as \<open>system_response\<close> and the handler's own id in
  \<open>current_agent_awaiting_parameters\<close>; the scratchpad is the one extraction (and, for
  question generation, the default count) produced, and every slot the turn started with
  is still in it. If validation is complete and the response is generated, the node
  returns with that response, \<open>current_agent_awaiting_parameters = None\<close> and an empty
  scratchpad. The question-generation node is stated for the role \<open>Admin\<close>, the only role
  for which \<open>route\<close> selects it.
\<close>

theorem turn_outcome_contract:
  "(let state1 = AssignmentReviewAgent_extract_parameters state;
        v = AssignmentReviewAgent_validate_parameters state1
    in if complete v
       then (\<forall>reply. AssignmentReviewAgent_generate_response llm state1 = Inr reply
               \<longrightarrow> assignment_review_node llm state
                   = Inr (state1\<lparr>system_response := reply,
                                 current_agent_awaiting_parameters := None,
                                 sub_agent_scratchpad := []\<rparr>))
       else (\<exists>c. clarification v = Some c
               \<and> assignment_review_node llm state
                   = Inr (state1\<lparr>system_response := c,
                                 current_agent_awaiting_parameters := Some ''assignment_review_agent''\<rparr>)
               \<and> (\<forall>slot. map_of (sub_agent_scratchpad state) slot \<noteq> None
                      \<longrightarrow> map_of (sub_agent_scratchpad state1) slot \<noteq> None)))
   \<and> (let state1 = LearningPathAgent_extract_parameters state;
        v = LearningPathAgent_validate_parameters state1
    in if complete v
       then (\<forall>reply. LearningPathAgent_generate_response llm state1 = Inr reply
               \<longrightarrow> learning_path_node llm state
                   = Inr (state1\<lparr>system_response := reply,
                                 current_agent_awaiting_parameters := None,
                                 sub_agent_scratchpad := []\<rparr>))
       else (\<exists>c. clarification v = Some c
               \<and> learning_path_node llm state
                   = Inr (state1\<lparr>system_response := c,
                                 current_agent_awaiting_parameters := Some ''learning_path_agent''\<rparr>)
               \<and> (\<forall>slot. map_of (sub_agent_scratchpad state) slot \<noteq> None
                      \<longrightarrow> map_of (sub_agent_scratchpad state1) slot \<noteq> None)))
   \<and> (user_role state = ''Admin'' \<longrightarrow>
        (let state1 = QuestionGenerationAgent_extract_parameters state;
              (v, state2) = QuestionGenerationAgent_validate_parameters state1
          in if complete v
             then (\<forall>reply. QuestionGenerationAgent_generate_response llm state2 = Inr reply
                     \<longrightarrow> question_generation_node llm state
                         = Inr (state2\<lparr>system_response := reply,
                                       current_agent_awaiting_parameters := None,
                                       sub_agent_scratchpad := []\<rparr>))
             else (\<exists>c. clarification v = Some c
                     \<and> question_generation_node llm state
                         = Inr (state2\<lparr>system_response := c,
                                       current_agent_awaiting_parameters :=
                                         Some ''question_generation_agent''\<rparr>)
                     \<and> (\<forall>slot. map_of (sub_agent_scratchpad state) slot \<noteq> None
                            \<longrightarrow> map_of (sub_agent_scratchpad state2) slot \<noteq> None))))
   \<and> (route routing_chain state = Inr ''question_generation_agent''
        \<longrightarrow> user_role state = ''Admin'')"
  using assignment_review_outcome [of state llm] learning_path_outcome [of state llm]
        question_generation_outcome [of state llm]
        route_question_generation_admin [of routing_chain state]
  by blast


theorem turn_outcome_contract_witness:
  "complete (AssignmentReviewAgent_validate_parameters
      (AssignmentReviewAgent_extract_parameters
         ((initial_state ''u1'' ''Consultant'')
            \<lparr>user_query := ''Python Basics'',
             current_agent_awaiting_parameters := Some ''assignment_review_agent''\<rparr>)))
   \<and> assignment_review_node (answers ''You scored 85%.'')
        ((initial_state ''u1'' ''Consultant'')
           \<lparr>user_query := ''Python Basics'',
            current_agent_awaiting_parameters := Some ''assignment_review_agent''\<rparr>)
      = Inr ((initial_state ''u1'' ''Consultant'')
               \<lparr>user_query := ''Python Basics'',
                system_response := ''You scored 85%.'',
                current_agent_awaiting_parameters := None,
                sub_agent_scratchpad := []\<rparr>)
   \<and> \<not> complete (LearningPathAgent_validate_parameters
      (LearningPathAgent_extract_parameters
         ((initial_state ''u1'' ''Consultant'')\<lparr>user_query := ''I want to learn Python''\<rparr>)))
   \<and> learning_path_node (unavailable ''generation unavailable'')
        ((initial_state ''u1'' ''Consultant'')\<lparr>user_query := ''I want to learn Python''\<rparr>)
      = Inr ((initial_state ''u1'' ''Consultant'')
               \<lparr>user_query := ''I want to learn Python'',
                sub_agent_scratchpad := [(''topic'', PStr ''Python'')],
                system_response :=
                  ''To recommend the best learning resources for you, I need:\<newline>- What is your current skill level? (Beginner/Intermediate/Advanced)'',
                current_agent_awaiting_parameters := Some ''learning_path_agent''\<rparr>)"
proof -
  let ?a = "(initial_state ''u1'' ''Consultant'')
            \<lparr>user_query := ''Python Basics'',
             current_agent_awaiting_parameters := Some ''assignment_review_agent''\<rparr>"
  let ?l = "(initial_state ''u1'' ''Consultant'')\<lparr>user_query := ''I want to learn Python''\<rparr>"
  have ea: "AssignmentReviewAgent_extract_parameters ?a
            = ?a\<lparr>sub_agent_scratchpad := [(''assignment_title'', PStr ''Python Basics'')]\<rparr>"
    by code_simp
  have ca: "complete (AssignmentReviewAgent_validate_parameters
              (AssignmentReviewAgent_extract_parameters ?a))"
    by code_simp
  have ga: "AssignmentReviewAgent_generate_response (answers ''You scored 85%.'')
              (AssignmentReviewAgent_extract_parameters ?a) = Inr ''You scored 85%.''"
    by (simp add: AssignmentReviewAgent_generate_response_def answers_def Let_def)
  have el: "LearningPathAgent_extract_parameters ?l
            = ?l\<lparr>sub_agent_scratchpad := [(''topic'', PStr ''Python'')]\<rparr>"
    by code_simp
  have cl: "\<not> complete (LearningPathAgent_validate_parameters
              (LearningPathAgent_extract_parameters ?l))"
    by code_simp
  have vl: "clarification (LearningPathAgent_validate_parameters
              (LearningPathAgent_extract_parameters ?l))
            = Some ''To recommend the best learning resources for you, I need:\<newline>- What is your current skill level? (Beginner/Intermediate/Advanced)''"
    by code_simp
  from turn_outcome_contract [of ?a "answers ''You scored 85%.''", unfolded Let_def] ca ga
  have na: "assignment_review_node (answers ''You scored 85%.'') ?a
              = Inr ((AssignmentReviewAgent_extract_parameters ?a)
                       \<lparr>system_response := ''You scored 85%.'',
                        current_agent_awaiting_parameters := None,
                        sub_agent_scratchpad := []\<rparr>)"
    by simp
  from turn_outcome_contract [of ?l "unavailable ''generation unavailable''", unfolded Let_def] cl vl
  have nl: "learning_path_node (unavailable ''generation unavailable'') ?l
              = Inr ((LearningPathAgent_extract_parameters ?l)
                       \<lparr>system_response :=
                          ''To recommend the best learning resources for you, I need:\<newline>- What is your current skill level? (Beginner/Intermediate/Advanced)'',
                        current_agent_awaiting_parameters := Some ''learning_path_agent''\<rparr>)"
    by simp
  show ?thesis
    using ca cl na nl unfolding ea el by (simp add: initial_state_def)
qed

subsection \<open>A capability call that raises\<close>

text \<open>A node that raises does so with the state extraction and validation left.\<close>

lemma assignment_review_node_raised:
  assumes "assignment_review_node llm state = Inl (e, raised)"
  shows "raised = AssignmentReviewAgent_extract_parameters state"
proof (cases "complete (AssignmentReviewAgent_validate_parameters
                          (AssignmentReviewAgent_extract_parameters state))")
  case True
  then show ?thesis
    using assms
    by (cases "AssignmentReviewAgent_generate_response llm
                 (AssignmentReviewAgent_extract_parameters state)")
       (simp_all add: assignment_review_node_def Let_def)
next
  case False
  then show ?thesis
    using assms
    by (cases "clarification (AssignmentReviewAgent_validate_parameters
                                (AssignmentReviewAgent_extract_parameters state))")
       (simp_all add: assignment_review_node_def Let_def)
qed

lemma learning_path_node_raised:
  assumes "learning_path_node llm state = Inl (e, raised)"
  shows "raised = LearningPathAgent_extract_parameters state"
proof (cases "complete (LearningPathAgent_validate_parameters
                          (LearningPathAgent_extract_parameters state))")
  case True
  then show ?thesis
    using assms
    by (cases "LearningPathAgent_generate_response llm
                 (LearningPathAgent_extract_parameters state)")
       (simp_all add: learning_path_node_def Let_def)
next
  case False
  then show ?thesis
    using assms
    by (cases "clarification (LearningPathAgent_validate_parameters
                                (LearningPathAgent_extract_parameters state))")
       (simp_all add: learning_path_node_def Let_def)
qed

lemma question_generation_node_raised:
  assumes "question_generation_node llm state = Inl (e, raised)"
  shows "raised = snd (QuestionGenerationAgent_validate_parameters
                         (QuestionGenerationAgent_extract_parameters state))"
proof -
  obtain v validated where
    vs: "QuestionGenerationAgent_validate_parameters
           (QuestionGenerationAgent_extract_parameters state) = (v, validated)"
    by (cases "QuestionGenerationAgent_validate_parameters
                 (QuestionGenerationAgent_extract_parameters state)")
  have p: "QuestionGenerationAgent_check_permissions state"
    using assms by (cases "QuestionGenerationAgent_check_permissions state")
                    (simp_all add: question_generation_node_def)
  have "raised = validated"
  proof (cases "complete v")
    case True
    then show ?thesis
      using assms p vs
      by (cases "QuestionGenerationAgent_generate_response llm validated")
         (simp_all add: question_generation_node_def Let_def)
  next
    case False
    then show ?thesis
      using assms p vs
      by (cases "clarification v") (simp_all add: question_generation_node_def Let_def)
  qed
  then show ?thesis using vs by simp
qed

lemma faq_fallback_node_raised:
  assumes "faq_fallback_node llm state = Inl (e, raised)"
  shows "raised = state"
  using assms
  by (cases "FAQFallbackAgent_generate_response llm state") (simp_all add: faq_fallback_node_def)

lemma route_to_agent_keeps_slots:
  assumes "route_to_agent llm state = Inl (e, raised)"
    and "map_of (sub_agent_scratchpad state) slot \<noteq> None"
  shows "map_of (sub_agent_scratchpad raised) slot \<noteq> None"
proof (cases "current_agent state")
  case None
  then have "raised = state" using assms(1) by (simp add: route_to_agent_def)
  then show ?thesis using assms(2) by simp
next
  case (Some agent)
  show ?thesis
  proof (cases "agent = ''assignment_review_agent''")
    case True
    then have "assignment_review_node llm state = Inl (e, raised)"
      using assms(1) Some by (simp add: route_to_agent_def)
    then have "raised = AssignmentReviewAgent_extract_parameters state"
      by (rule assignment_review_node_raised)
    then show ?thesis
      using merge_keeps_slot [OF AssignmentReviewAgent_extract_merge [of state] assms(2)] by simp
  next
    case n1: False
    show ?thesis
    proof (cases "agent = ''learning_path_agent''")
      case True
      then have "learning_path_node llm state = Inl (e, raised)"
        using assms(1) Some n1 by (simp add: route_to_agent_def)
      then have "raised = LearningPathAgent_extract_parameters state"
        by (rule learning_path_node_raised)
      then show ?thesis
        using merge_keeps_slot [OF LearningPathAgent_extract_merge [of state] assms(2)] by simp
    next
      case n2: False
      show ?thesis
      proof (cases "agent = ''question_generation_agent''")
        case True
        then have "question_generation_node llm state = Inl (e, raised)"
          using assms(1) Some n1 n2 by (simp add: route_to_agent_def)
        then have r: "raised = snd (QuestionGenerationAgent_validate_parameters
                                      (QuestionGenerationAgent_extract_parameters state))"
          by (rule question_generation_node_raised)
        have "map_of (sub_agent_scratchpad (QuestionGenerationAgent_extract_parameters state)) slot
                \<noteq> None"
          using QuestionGenerationAgent_extract_merge [of state] assms(2) by (rule merge_keeps_slot)
        then show ?thesis unfolding r by (rule question_validate_keeps_slot)
      next
        case n3: False
        show ?thesis
        proof (cases "agent = ''faq_fallback_agent''")
          case True
          then have "faq_fallback_node llm state = Inl (e, raised)"
            using assms(1) Some n1 n2 n3 by (simp add: route_to_agent_def)
          then have "raised = state" by (rule faq_fallback_node_raised)
          then show ?thesis using assms(2) by simp
        next
          case False
          then have "raised = state"
            using assms(1) Some n1 n2 n3 by (simp add: route_to_agent_def)
          then show ?thesis using assms(2) by simp
        qed
      qed
    qed
  qed
qed

text \<open>What the caller holds after the graph raised.\<close>

lemma graph_invoke_raised:
  assumes "graph_invoke routing_chain llm state0 = Inl (e, state')"
  shows "(\<exists>scratchpad. state' = state0\<lparr>sub_agent_scratchpad := scratchpad\<rparr>)
         \<and> (\<forall>slot. map_of (sub_agent_scratchpad state0) slot \<noteq> None
                \<longrightarrow> map_of (sub_agent_scratchpad state') slot \<noteq> None)"
proof (cases "route routing_chain state0")
  case (Inl e')
  then have "state' = state0"
    using assms by (simp add: graph_invoke_def router_node_def)
  then have "\<exists>scratchpad. state' = state0\<lparr>sub_agent_scratchpad := scratchpad\<rparr>"
    by (intro exI [of _ "sub_agent_scratchpad state0"]) simp
  then show ?thesis using \<open>state' = state0\<close> by simp
next
  case r: (Inr a)
  let ?s = "state0\<lparr>current_agent := Some a\<rparr>"
  have "\<exists>raised. route_to_agent llm ?s = Inl (e, raised)
           \<and> state' = state0\<lparr>sub_agent_scratchpad := sub_agent_scratchpad raised\<rparr>"
  proof (cases "route_to_agent llm ?s")
    case (Inl failure)
    obtain e' raised where f: "failure = (e', raised)" by (cases failure)
    with Inl assms r have "e' = e"
      and "state' = state0\<lparr>sub_agent_scratchpad := sub_agent_scratchpad raised\<rparr>"
      by (simp_all add: graph_invoke_def router_node_def)
    then show ?thesis using Inl f by simp
  next
    case (Inr result)
    then show ?thesis using assms r by (simp add: graph_invoke_def router_node_def)
  qed
  then obtain raised where
    n: "route_to_agent llm ?s = Inl (e, raised)"
    and s: "state' = state0\<lparr>sub_agent_scratchpad := sub_agent_scratchpad raised\<rparr>"
    by blast
  have "map_of (sub_agent_scratchpad raised) slot \<noteq> None"
    if "map_of (sub_agent_scratchpad state0) slot \<noteq> None" for slot
    using route_to_agent_keeps_slots [OF n, of slot] that by simp
  then have "\<forall>slot. map_of (sub_agent_scratchpad state0) slot \<noteq> None
                \<longrightarrow> map_of (sub_agent_scratchpad state') slot \<noteq> None"
    unfolding s by simp
  moreover have "\<exists>scratchpad. state' = state0\<lparr>sub_agent_scratchpad := scratchpad\<rparr>"
    using s by (intro exI [of _ "sub_agent_scratchpad raised"])
  ultimately show ?thesis by simp
qed

lemma process_message_raised:
  assumes "process_message t_user t_system routing_chain llm state = Inl (e, state')"
  shows "current_agent_awaiting_parameters state' = current_agent_awaiting_parameters state
         \<and> error state' = error state
         \<and> current_agent state' = current_agent state
         \<and> (\<forall>slot. map_of (sub_agent_scratchpad state) slot \<noteq> None
                \<longrightarrow> map_of (sub_agent_scratchpad state') slot \<noteq> None)"
proof -
  let ?s1 = "state\<lparr>conversation_history := conversation_history state
               @ [\<lparr>role = ''user'', content = user_query state, timestamp = Some t_user\<rparr>]\<rparr>"
  from assms have "graph_invoke routing_chain llm ?s1 = Inl (e, state')"
    by (cases "graph_invoke routing_chain llm ?s1") (simp_all add: process_message_def Let_def)
  from graph_invoke_raised [OF this] obtain scratchpad where
    s: "state' = ?s1\<lparr>sub_agent_scratchpad := scratchpad\<rparr>"
    and k: "\<forall>slot. map_of (sub_agent_scratchpad ?s1) slot \<noteq> None
                \<longrightarrow> map_of (sub_agent_scratchpad state') slot \<noteq> None"
    by blast
  from k have "\<forall>slot. map_of (sub_agent_scratchpad state) slot \<noteq> None
                \<longrightarrow> map_of (sub_agent_scratchpad state') slot \<noteq> None"
    by simp
  then show ?thesis unfolding s by simp
qed

text \<open>A capability call that raises makes the turn raise.\<close>

lemma route_classifier_raises:
  assumes "\<not> (is_abandonment (analyze_context state)
             \<and> current_agent_awaiting_parameters state \<noteq> None)"
    and "routing_chain (build_routing_input state) = Inl e"
  shows "route routing_chain state = Inl e"
  using assms by (auto simp: route_def Let_def analyze_context_def)

lemma graph_invoke_classifier_raises:
  assumes "route routing_chain state0 = Inl e"
  shows "graph_invoke routing_chain llm state0 = Inl (e, state0)"
  using assms by (simp add: graph_invoke_def router_node_def)

lemma graph_invoke_node_raises:
  assumes "route routing_chain state0 = Inr a"
    and "route_to_agent llm (state0\<lparr>current_agent := Some a\<rparr>) = Inl (e, raised)"
  shows "graph_invoke routing_chain llm state0
         = Inl (e, state0\<lparr>sub_agent_scratchpad := sub_agent_scratchpad raised\<rparr>)"
  using assms by (simp add: graph_invoke_def router_node_def)

lemma assignment_review_node_raises:
  assumes "complete (AssignmentReviewAgent_validate_parameters
                       (AssignmentReviewAgent_extract_parameters state))"
    and "AssignmentReviewAgent_generate_response llm (AssignmentReviewAgent_extract_parameters state)
           = Inl e"
  shows "assignment_review_node llm state = Inl (e, AssignmentReviewAgent_extract_parameters state)"
  using assms by (simp add: assignment_review_node_def Let_def)

lemma learning_path_node_raises:
  assumes "complete (LearningPathAgent_validate_parameters
                       (LearningPathAgent_extract_parameters state))"
    and "LearningPathAgent_generate_response llm (LearningPathAgent_extract_parameters state) = Inl e"
  shows "learning_path_node llm state = Inl (e, LearningPathAgent_extract_parameters state)"
  using assms by (simp add: learning_path_node_def Let_def)

lemma question_generation_node_raises:
  assumes "user_role state = ''Admin''"
    and "QuestionGenerationAgent_validate_parameters
           (QuestionGenerationAgent_extract_parameters state) = (v, validated)"
    and "complete v"
    and "QuestionGenerationAgent_generate_response llm validated = Inl e"
  shows "question_generation_node llm state = Inl (e, validated)"
  using assms
  by (simp add: question_generation_node_def Let_def QuestionGenerationAgent_check_permissions_def)

lemma faq_fallback_node_raises:
  assumes "FAQFallbackAgent_generate_response llm state = Inl e"
  shows "faq_fallback_node llm state = Inl (e, state)"
  using assms by (simp add: faq_fallback_node_def)

lemma process_message_graph:
  "process_message t_user t_system routing_chain llm state =
     (case graph_invoke routing_chain llm
             (state\<lparr>conversation_history := conversation_history state
                @ [\<lparr>role = ''user'', content = user_query state, timestamp = Some t_user\<rparr>]\<rparr>) of
        Inl failure \<Rightarrow> Inl failure
      | Inr result \<Rightarrow>
          Inr (result\<lparr>conversation_history := conversation_history result
                 @ [\<lparr>role = ''assistant'', content = system_response result,
                      timestamp = Some t_system\<rparr>]\<rparr>))"
  by (cases "graph_invoke routing_chain llm
               (state\<lparr>conversation_history := conversation_history state
                  @ [\<lparr>role = ''user'', content = user_query state, timestamp = Some t_user\<rparr>]\<rparr>)")
     (simp_all add: process_message_def Let_def)


text \<open>
  Claim C1, as stated, fails. A session is collecting parameters for
  \<open>learning_path_agent\<close> with \<open>topic\<close> in its scratchpad, and the classifier raises on
  the next utterance. The conversation loop of \<open>main\<close> prints an error line and resets the
  state: \<open>current_agent_awaiting_parameters\<close> becomes \<open>None\<close> and the scratchpad empty, so
  they are not left as they were; and the \<open>error\<close> field is still \<open>None\<close>. The websocket
  handler sends an error message and leaves the two fields alone, and there too the
  \<open>error\<close> field is still \<open>None\<close>.
\<close>

theorem capability_failure_counterexample:
  "main_turn ''t1'' ''t2'' (unavailable ''classifier unavailable'') (answers ''ok'') ''beginner''
     ((initial_state ''u1'' ''Consultant'')
        \<lparr>current_agent_awaiting_parameters := Some ''learning_path_agent'',
         sub_agent_scratchpad := [(''topic'', PStr ''Python'')]\<rparr>)
   = Continue
       ((initial_state ''u1'' ''Consultant'')
          \<lparr>user_query := ''beginner'',
           conversation_history :=
             [\<lparr>role = ''user'', content = ''beginner'', timestamp = Some ''t1''\<rparr>],
           current_agent_awaiting_parameters := None,
           sub_agent_scratchpad := [],
           error := None\<rparr>)
       [''\<newline>'' @ [CHR 0xE2, CHR 0x9D, CHR 0x8C]
        @ '' Error processing request: classifier unavailable\<newline>'']
   \<and> handle_message ''t1'' ''t2'' ''t3'' (unavailable ''classifier unavailable'') (answers ''ok'')
       (Query ''beginner'')
       ((initial_state ''u1'' ''Consultant'')
          \<lparr>current_agent_awaiting_parameters := Some ''learning_path_agent'',
           sub_agent_scratchpad := [(''topic'', PStr ''Python'')]\<rparr>)
     = (ErrorReply ''Error processing message: classifier unavailable'',
        (initial_state ''u1'' ''Consultant'')
          \<lparr>user_query := ''beginner'',
           conversation_history :=
             [\<lparr>role = ''user'', content = ''beginner'', timestamp = Some ''t1''\<rparr>],
           current_agent_awaiting_parameters := Some ''learning_path_agent'',
           sub_agent_scratchpad := [(''topic'', PStr ''Python'')],
           error := None\<rparr>)"
  by code_simp

text \<open>
  Claim C1, amended. Every capability call of a turn that raises makes the turn raise:
  the classifier's call (made unless the turn is an abandonment), the generation call of
  the assignment, learning-path or question-generation node (made when validation is
  complete), and the generation call of the fallback node. The exception comes with the
  caller's state: the state of the turn with the user's message in its history and with
  what extraction and validation stored in the scratchpad. Whenever a turn raises, the
  conversation loop of \<open>main\<close> prints an error line naming the exception and goes on with
  \<open>current_agent_awaiting_parameters\<close> reset to \<open>None\<close> and the scratchpad reset to empty;
  the websocket handler replies with an error message naming the exception and keeps the
  session with \<open>current_agent_awaiting_parameters\<close> and \<open>current_agent\<close> as they were
  before the turn and with every slot the scratchpad had. Neither path writes the
  \<open>error\<close> field.
\<close>

theorem capability_failure_turn:
  "(let turn = state\<lparr>user_query := query\<rparr>;
        state1 = turn\<lparr>conversation_history := conversation_history turn
                   @ [\<lparr>role = ''user'', content = user_query turn, timestamp = Some t_user\<rparr>]\<rparr>;
        run = process_message t_user t_system routing_chain llm turn
    in (\<not> (is_abandonment (analyze_context state1)
             \<and> current_agent_awaiting_parameters state1 \<noteq> None)
          \<and> routing_chain (build_routing_input state1) = Inl e
        \<longrightarrow> run = Inl (e, state1))
     \<and> (route routing_chain state1 = Inr ''assignment_review_agent''
        \<longrightarrow> (let extracted = AssignmentReviewAgent_extract_parameters
                                (state1\<lparr>current_agent := Some ''assignment_review_agent''\<rparr>)
             in complete (AssignmentReviewAgent_validate_parameters extracted)
                  \<and> AssignmentReviewAgent_generate_response llm extracted = Inl e
                \<longrightarrow> run = Inl (e, state1\<lparr>sub_agent_scratchpad := sub_agent_scratchpad extracted\<rparr>)))
     \<and> (route routing_chain state1 = Inr ''learning_path_agent''
        \<longrightarrow> (let extracted = LearningPathAgent_extract_parameters
                                (state1\<lparr>current_agent := Some ''learning_path_agent''\<rparr>)
             in complete (LearningPathAgent_validate_parameters extracted)
                  \<and> LearningPathAgent_generate_response llm extracted = Inl e
                \<longrightarrow> run = Inl (e, state1\<lparr>sub_agent_scratchpad := sub_agent_scratchpad extracted\<rparr>)))
     \<and> (route routing_chain state1 = Inr ''question_generation_agent''
        \<longrightarrow> (let (v, validated) =
                   QuestionGenerationAgent_validate_parameters
                     (QuestionGenerationAgent_extract_parameters
                        (state1\<lparr>current_agent := Some ''question_generation_agent''\<rparr>))
             in complete v \<and> QuestionGenerationAgent_generate_response llm validated = Inl e
                \<longrightarrow> run = Inl (e, state1\<lparr>sub_agent_scratchpad := sub_agent_scratchpad validated\<rparr>)))
     \<and> (route routing_chain state1 = Inr ''faq_fallback_agent''
          \<and> FAQFallbackAgent_generate_response llm
                (state1\<lparr>current_agent := Some ''faq_fallback_agent''\<rparr>) = Inl e
        \<longrightarrow> run = Inl (e, state1))
     \<and> (\<forall>state'. run = Inl (e, state')
        \<longrightarrow> (strip line = query \<and> query \<noteq> [] \<and> lower query \<notin> set [''quit'', ''exit'', ''bye'']
             \<longrightarrow> main_turn t_user t_system routing_chain llm line state
                 = Continue (state'\<lparr>current_agent_awaiting_parameters := None,
                                    sub_agent_scratchpad := []\<rparr>)
                     [''\<newline>'' @ [CHR 0xE2, CHR 0x9D, CHR 0x8C] @ '' Error processing request: ''
                      @ exn_str e @ ''\<newline>''])
          \<and> (strip raw = query \<and> query \<noteq> []
             \<longrightarrow> handle_message t_user t_system t_reply routing_chain llm (Query raw) state
                 = (ErrorReply (''Error processing message: '' @ exn_str e), state'))
          \<and> current_agent_awaiting_parameters state' = current_agent_awaiting_parameters state
          \<and> error state' = error state
          \<and> current_agent state' = current_agent state
          \<and> (\<forall>slot. map_of (sub_agent_scratchpad state) slot \<noteq> None
                 \<longrightarrow> map_of (sub_agent_scratchpad state') slot \<noteq> None)))"
proof -
  define turn where "turn = state\<lparr>user_query := query\<rparr>"
  define state1 where
    "state1 = turn\<lparr>conversation_history := conversation_history turn
                @ [\<lparr>role = ''user'', content = user_query turn, timestamp = Some t_user\<rparr>]\<rparr>"
  define run where "run = process_message t_user t_system routing_chain llm turn"
  have pm: "run = (case graph_invoke routing_chain llm state1 of
                     Inl failure \<Rightarrow> Inl failure
                   | Inr result \<Rightarrow>
                       Inr (result\<lparr>conversation_history := conversation_history result
                              @ [\<lparr>role = ''assistant'', content = system_response result,
                                   timestamp = Some t_system\<rparr>]\<rparr>))"
    unfolding run_def state1_def by (rule process_message_graph)
  have node: "run = Inl (e, state1\<lparr>sub_agent_scratchpad := sub_agent_scratchpad raised\<rparr>)"
    if "route routing_chain state1 = Inr a"
      and "route_to_agent llm (state1\<lparr>current_agent := Some a\<rparr>) = Inl (e, raised)" for a raised
    unfolding pm using graph_invoke_node_raises [OF that] by simp
  have 1: "\<not> (is_abandonment (analyze_context state1)
             \<and> current_agent_awaiting_parameters state1 \<noteq> None)
          \<and> routing_chain (build_routing_input state1) = Inl e
        \<longrightarrow> run = Inl (e, state1)"
  proof
    assume a: "\<not> (is_abandonment (analyze_context state1)
             \<and> current_agent_awaiting_parameters state1 \<noteq> None)
          \<and> routing_chain (build_routing_input state1) = Inl e"
    then have "route routing_chain state1 = Inl e"
      using route_classifier_raises [of state1 routing_chain e] by simp
    then have "graph_invoke routing_chain llm state1 = Inl (e, state1)"
      by (rule graph_invoke_classifier_raises)
    then show "run = Inl (e, state1)" unfolding pm by simp
  qed
  have 2: "route routing_chain state1 = Inr ''assignment_review_agent''
        \<longrightarrow> (let extracted = AssignmentReviewAgent_extract_parameters
                                (state1\<lparr>current_agent := Some ''assignment_review_agent''\<rparr>)
             in complete (AssignmentReviewAgent_validate_parameters extracted)
                  \<and> AssignmentReviewAgent_generate_response llm extracted = Inl e
                \<longrightarrow> run = Inl (e, state1\<lparr>sub_agent_scratchpad := sub_agent_scratchpad extracted\<rparr>))"
    unfolding Let_def
    using node [of "''assignment_review_agent''"]
          assignment_review_node_raises
            [of "state1\<lparr>current_agent := Some ''assignment_review_agent''\<rparr>" llm e]
    by (simp add: route_to_agent_def)
  have 3: "route routing_chain state1 = Inr ''learning_path_agent''
        \<longrightarrow> (let extracted = LearningPathAgent_extract_parameters
                                (state1\<lparr>current_agent := Some ''learning_path_agent''\<rparr>)
             in complete (LearningPathAgent_validate_parameters extracted)
                  \<and> LearningPathAgent_generate_response llm extracted = Inl e
                \<longrightarrow> run = Inl (e, state1\<lparr>sub_agent_scratchpad := sub_agent_scratchpad extracted\<rparr>))"
    unfolding Let_def
    using node [of "''learning_path_agent''"]
          learning_path_node_raises
            [of "state1\<lparr>current_agent := Some ''learning_path_agent''\<rparr>" llm e]
    by (simp add: route_to_agent_def)
  have 4: "route routing_chain state1 = Inr ''question_generation_agent''
        \<longrightarrow> (let (v, validated) =
                   QuestionGenerationAgent_validate_parameters
                     (QuestionGenerationAgent_extract_parameters
                        (state1\<lparr>current_agent := Some ''question_generation_agent''\<rparr>))
             in complete v \<and> QuestionGenerationAgent_generate_response llm validated = Inl e
                \<longrightarrow> run = Inl (e, state1\<lparr>sub_agent_scratchpad := sub_agent_scratchpad validated\<rparr>))"
  proof
    assume r: "route routing_chain state1 = Inr ''question_generation_agent''"
    let ?s = "state1\<lparr>current_agent := Some ''question_generation_agent''\<rparr>"
    obtain v validated where
      vs: "QuestionGenerationAgent_validate_parameters
             (QuestionGenerationAgent_extract_parameters ?s) = (v, validated)"
      by (cases "QuestionGenerationAgent_validate_parameters
                   (QuestionGenerationAgent_extract_parameters ?s)")
    have adm: "user_role ?s = ''Admin''"
      using route_question_generation_admin [OF r] by simp
    have "run = Inl (e, state1\<lparr>sub_agent_scratchpad := sub_agent_scratchpad validated\<rparr>)"
      if "complete v" and "QuestionGenerationAgent_generate_response llm validated = Inl e"
    proof -
      have "question_generation_node llm ?s = Inl (e, validated)"
        using adm vs that by (rule question_generation_node_raises)
      then have "route_to_agent llm ?s = Inl (e, validated)"
        by (simp add: route_to_agent_def)
      with r show ?thesis by (rule node)
    qed
    then show "let (v, validated) =
                   QuestionGenerationAgent_validate_parameters
                     (QuestionGenerationAgent_extract_parameters ?s)
             in complete v \<and> QuestionGenerationAgent_generate_response llm validated = Inl e
                \<longrightarrow> run = Inl (e, state1\<lparr>sub_agent_scratchpad := sub_agent_scratchpad validated\<rparr>)"
      unfolding Let_def vs by simp
  qed
  have 5: "route routing_chain state1 = Inr ''faq_fallback_agent''
          \<and> FAQFallbackAgent_generate_response llm
                (state1\<lparr>current_agent := Some ''faq_fallback_agent''\<rparr>) = Inl e
        \<longrightarrow> run = Inl (e, state1)"
    using node [of "''faq_fallback_agent''" "state1\<lparr>current_agent := Some ''faq_fallback_agent''\<rparr>"]
          faq_fallback_node_raises
            [of llm "state1\<lparr>current_agent := Some ''faq_fallback_agent''\<rparr>" e]
    by (simp add: route_to_agent_def)
  have 6: "\<forall>state'. run = Inl (e, state')
        \<longrightarrow> (strip line = query \<and> query \<noteq> [] \<and> lower query \<notin> set [''quit'', ''exit'', ''bye'']
             \<longrightarrow> main_turn t_user t_system routing_chain llm line state
                 = Continue (state'\<lparr>current_agent_awaiting_parameters := None,
                                    sub_agent_scratchpad := []\<rparr>)
                     [''\<newline>'' @ [CHR 0xE2, CHR 0x9D, CHR 0x8C] @ '' Error processing request: ''
                      @ exn_str e @ ''\<newline>''])
          \<and> (strip raw = query \<and> query \<noteq> []
             \<longrightarrow> handle_message t_user t_system t_reply routing_chain llm (Query raw) state
                 = (ErrorReply (''Error processing message: '' @ exn_str e), state'))
          \<and> current_agent_awaiting_parameters state' = current_agent_awaiting_parameters state
          \<and> error state' = error state
          \<and> current_agent state' = current_agent state
          \<and> (\<forall>slot. map_of (sub_agent_scratchpad state) slot \<noteq> None
                 \<longrightarrow> map_of (sub_agent_scratchpad state') slot \<noteq> None)"
  proof (intro allI impI)
    fix state'
    assume "run = Inl (e, state')"
    then have p: "process_message t_user t_system routing_chain llm (state\<lparr>user_query := query\<rparr>)
                    = Inl (e, state')"
      by (simp add: run_def turn_def)
    have m: "main_turn t_user t_system routing_chain llm line state
                 = Continue (state'\<lparr>current_agent_awaiting_parameters := None,
                                    sub_agent_scratchpad := []\<rparr>)
                     [''\<newline>'' @ [CHR 0xE2, CHR 0x9D, CHR 0x8C] @ '' Error processing request: ''
                      @ exn_str e @ ''\<newline>'']"
      if "strip line = query \<and> query \<noteq> [] \<and> lower query \<notin> set [''quit'', ''exit'', ''bye'']"
      using that p by (simp add: main_turn_def Let_def)
    have h: "handle_message t_user t_system t_reply routing_chain llm (Query raw) state
                 = (ErrorReply (''Error processing message: '' @ exn_str e), state')"
      if "strip raw = query \<and> query \<noteq> []"
      using that p by (simp add: handle_message_def Let_def)
    from process_message_raised [OF p]
    have k: "current_agent_awaiting_parameters state' = current_agent_awaiting_parameters state"
      "error state' = error state"
      "current_agent state' = current_agent state"
      "\<forall>slot. map_of (sub_agent_scratchpad state) slot \<noteq> None
                 \<longrightarrow> map_of (sub_agent_scratchpad state') slot \<noteq> None"
      by simp_all
    show "(strip line = query \<and> query \<noteq> [] \<and> lower query \<notin> set [''quit'', ''exit'', ''bye'']
             \<longrightarrow> main_turn t_user t_system routing_chain llm line state
                 = Continue (state'\<lparr>current_agent_awaiting_parameters := None,
                                    sub_agent_scratchpad := []\<rparr>)
                     [''\<newline>'' @ [CHR 0xE2, CHR 0x9D, CHR 0x8C] @ '' Error processing request: ''
                      @ exn_str e @ ''\<newline>''])
          \<and> (strip raw = query \<and> query \<noteq> []
             \<longrightarrow> handle_message t_user t_system t_reply routing_chain llm (Query raw) state
                 = (ErrorReply (''Error processing message: '' @ exn_str e), state'))
          \<and> current_agent_awaiting_parameters state' = current_agent_awaiting_parameters state
          \<and> error state' = error state
          \<and> current_agent state' = current_agent state
          \<and> (\<forall>slot. map_of (sub_agent_scratchpad state) slot \<noteq> None
                 \<longrightarrow> map_of (sub_agent_scratchpad state') slot \<noteq> None)"
      using m h k by (intro conjI impI) assumption+
  qed
  show ?thesis
    unfolding Let_def turn_def [symmetric] state1_def [symmetric] run_def [symmetric]
    by (intro conjI 1 2 [unfolded Let_def] 3 [unfolded Let_def] 4 [unfolded Let_def] 5 6)
qed


theorem capability_failure_turn_witness:
  "process_message ''t1'' ''t2'' (answers ''CONTINUE_CURRENT'') (unavailable ''generation unavailable'')
     ((initial_state ''u1'' ''Consultant'')
        \<lparr>current_agent_awaiting_parameters := Some ''learning_path_agent'',
         sub_agent_scratchpad := [(''topic'', PStr ''Python'')],
         user_query := ''I am a beginner''\<rparr>)
   = Inl (CapabilityError ''generation unavailable'',
          (initial_state ''u1'' ''Consultant'')
            \<lparr>user_query := ''I am a beginner'',
             conversation_history :=
               [\<lparr>role = ''user'', content = ''I am a beginner'', timestamp = Some ''t1''\<rparr>],
             current_agent := None,
             current_agent_awaiting_parameters := Some ''learning_path_agent'',
             sub_agent_scratchpad := [(''topic'', PStr ''Python''), (''skill_level'', PStr ''Beginner'')]\<rparr>)
   \<and> main_turn ''t1'' ''t2'' (answers ''CONTINUE_CURRENT'') (unavailable ''generation unavailable'')
       ''I am a beginner''
       ((initial_state ''u1'' ''Consultant'')
          \<lparr>current_agent_awaiting_parameters := Some ''learning_path_agent'',
           sub_agent_scratchpad := [(''topic'', PStr ''Python'')]\<rparr>)
     = Continue
         ((initial_state ''u1'' ''Consultant'')
            \<lparr>user_query := ''I am a beginner'',
             conversation_history :=
               [\<lparr>role = ''user'', content = ''I am a beginner'', timestamp = Some ''t1''\<rparr>],
             current_agent := None,
             current_agent_awaiting_parameters := None,
             sub_agent_scratchpad := []\<rparr>)
         [''\<newline>'' @ [CHR 0xE2, CHR 0x9D, CHR 0x8C]
          @ '' Error processing request: generation unavailable\<newline>'']
   \<and> handle_message ''t1'' ''t2'' ''t3'' (answers ''CONTINUE_CURRENT'')
       (unavailable ''generation unavailable'') (Query ''I am a beginner'')
       ((initial_state ''u1'' ''Consultant'')
          \<lparr>current_agent_awaiting_parameters := Some ''learning_path_agent'',
           sub_agent_scratchpad := [(''topic'', PStr ''Python'')]\<rparr>)
     = (ErrorReply ''Error processing message: generation unavailable'',
        (initial_state ''u1'' ''Consultant'')
          \<lparr>user_query := ''I am a beginner'',
           conversation_history :=
             [\<lparr>role = ''user'', content = ''I am a beginner'', timestamp = Some ''t1''\<rparr>],
           current_agent := None,
           current_agent_awaiting_parameters := Some ''learning_path_agent'',
           sub_agent_scratchpad := [(''topic'', PStr ''Python''), (''skill_level'', PStr ''Beginner'')]\<rparr>)"
proof -
  let ?s = "(initial_state ''u1'' ''Consultant'')
          \<lparr>current_agent_awaiting_parameters := Some ''learning_path_agent'',
           sub_agent_scratchpad := [(''topic'', PStr ''Python'')]\<rparr>"
  let ?turn = "?s\<lparr>user_query := ''I am a beginner''\<rparr>"
  let ?s1 = "?turn\<lparr>conversation_history := conversation_history ?turn
               @ [\<lparr>role = ''user'', content = user_query ?turn, timestamp = Some ''t1''\<rparr>]\<rparr>"
  let ?x = "LearningPathAgent_extract_parameters (?s1\<lparr>current_agent := Some ''learning_path_agent''\<rparr>)"
  let ?e = "CapabilityError ''generation unavailable''"
  have r: "route (answers ''CONTINUE_CURRENT'') ?s1 = Inr ''learning_path_agent''"
    by code_simp
  have c: "complete (LearningPathAgent_validate_parameters ?x)"
    by code_simp
  have g: "LearningPathAgent_generate_response (unavailable ''generation unavailable'') ?x = Inl ?e"
    by (simp add: LearningPathAgent_generate_response_def unavailable_def Let_def)
  have x: "sub_agent_scratchpad ?x = [(''topic'', PStr ''Python''), (''skill_level'', PStr ''Beginner'')]"
    by code_simp
  have q: "strip ''I am a beginner'' = ''I am a beginner''" by code_simp
  have l: "lower ''I am a beginner'' \<notin> set [''quit'', ''exit'', ''bye'']" by code_simp
  note t = capability_failure_turn
             [where state = ?s and query = "''I am a beginner''" and t_user = "''t1''"
                and t_system = "''t2''" and routing_chain = "answers ''CONTINUE_CURRENT''"
                and llm = "unavailable ''generation unavailable''" and e = ?e
                and line = "''I am a beginner''" and raw = "''I am a beginner''"
                and t_reply = "''t3''", unfolded Let_def]
  note lp = t [THEN conjunct2, THEN conjunct2, THEN conjunct1, THEN mp, OF r, THEN mp,
               OF conjI [OF c g]]
  note hs = t [THEN conjunct2, THEN conjunct2, THEN conjunct2, THEN conjunct2, THEN conjunct2,
               THEN spec, THEN mp, OF lp]
  have m: "strip ''I am a beginner'' = ''I am a beginner'' \<and> ''I am a beginner'' \<noteq> []
           \<and> lower ''I am a beginner'' \<notin> set [''quit'', ''exit'', ''bye'']"
    using q l by simp
  have h: "strip ''I am a beginner'' = ''I am a beginner'' \<and> ''I am a beginner'' \<noteq> []"
    using q by simp
  note main = hs [THEN conjunct1, THEN mp, OF m]
  note ws = hs [THEN conjunct2, THEN conjunct1, THEN mp, OF h]
  show ?thesis
    using lp main ws unfolding x by (simp add: initial_state_def)
qed

end
